theory Spec2Isabelle
  imports Complex_Main "HOL-Library.Word"
begin

section \<open>The collaborators of the SOS screens\<close>

subsection \<open>The \<open>sos_alerts\<close> table\<close>

text \<open>
  The schema file declares \<open>sos_alerts\<close> with the columns \<open>id\<close>, \<open>user_id\<close>, \<open>lat\<close>,
  \<open>lng\<close>, \<open>status\<close> (default \<open>'active'\<close>), \<open>video_path\<close> and \<open>created_at\<close>. A row maps each
  column to its value; a column that maps to \<open>None\<close> is SQL \<open>NULL\<close>. The object literal that
  the client hands to \<open>insert\<close> or \<open>update\<close> is a list of column/value pairs in the order
  the source writes them.
\<close>

datatype column = C_id | C_user_id | C_lat | C_lng | C_status | C_video_path | C_created_at

datatype val = VText string | VNum real

type_synonym row = "column \<rightharpoonup> val"

type_synonym payload = "(column \<times> val) list"

type_synonym byte = "8 word"

text \<open>
  An accepted insert appends one row: the server-side defaults (\<open>id\<close>, \<open>status\<close>,
  \<open>created_at\<close>) overridden by the columns of the payload.
\<close>

definition db_insert :: "string \<Rightarrow> string \<Rightarrow> payload \<Rightarrow> row list \<Rightarrow> row list" where
  "db_insert new_id created p tbl =
     tbl @ [[C_id \<mapsto> VText new_id, C_status \<mapsto> VText ''active'', C_created_at \<mapsto> VText created]
              ++ map_of p]"

text \<open>An accepted \<open>update(p).eq('id', i)\<close> overrides the columns of \<open>p\<close> in every row whose id is \<open>i\<close>.\<close>

definition db_update :: "string \<Rightarrow> payload \<Rightarrow> row list \<Rightarrow> row list" where
  "db_update i p tbl = map (\<lambda>r. if r C_id = Some (VText i) then r ++ map_of p else r) tbl"

subsection \<open>Errors, external calls and the world outside the component\<close>

text \<open>A thrown or returned error object; the screens read only its optional \<open>message\<close>.\<close>

datatype js_error = JsError (message: "string option")

text \<open>\<open>e.message ?? fallback\<close>\<close>

definition message_or :: "js_error \<Rightarrow> string \<Rightarrow> string" where
  "message_or e fallback = (case message e of None \<Rightarrow> fallback | Some m \<Rightarrow> m)"

text \<open>
  \<open>if (alertId)\<close>, \<open>if (video?.uri)\<close>: an optional string is truthy when it is present and
  not empty.
\<close>

definition truthy :: "string option \<Rightarrow> bool" where
  "truthy x = (case x of None \<Rightarrow> False | Some t \<Rightarrow> t \<noteq> [])"

text \<open>\<open>error.message || fallback\<close>: an empty message falls back as well.\<close>

definition message_or_falsy :: "js_error \<Rightarrow> string \<Rightarrow> string" where
  "message_or_falsy e fallback = (if truthy (message e) then the (message e) else fallback)"

text \<open>The calls a screen makes on its collaborators, logged in the order they are made.\<close>

datatype call =
    GetCurrentPosition
  | Insert payload
  | Update string payload
  | InvokePush string real real
  | RecordAsync
  | StopRecording
  | Fetch string
  | ReadAsBase64 string
  | Upload string "byte list"

record world =
  sos_alerts :: "row list"
  sos_evidence :: "(string \<times> byte list) list"
  calls :: "call list"
  dialogs :: "(string \<times> string) list"
  console :: "string list"

definition do_call :: "call \<Rightarrow> world \<Rightarrow> world" where
  "do_call c w = w\<lparr>calls := calls w @ [c]\<rparr>"

definition alert_dialog :: "string \<Rightarrow> string \<Rightarrow> world \<Rightarrow> world" where
  "alert_dialog title msg w = w\<lparr>dialogs := dialogs w @ [(title, msg)]\<rparr>"

definition console_log :: "string \<Rightarrow> world \<Rightarrow> world" where
  "console_log tag w = w\<lparr>console := console w @ [tag]\<rparr>"

text \<open>
  \<open>supabase.from('sos_alerts').update(p).eq('id', i)\<close>: the call is made; the table changes
  only when the store accepts it. No screen looks at the reply.
\<close>

definition store_update :: "js_error option \<Rightarrow> string \<Rightarrow> payload \<Rightarrow> world \<Rightarrow> world" where
  "store_update reply i p w =
     (let w1 = do_call (Update i p) w
      in case reply of
           None \<Rightarrow> w1\<lparr>sos_alerts := db_update i p (sos_alerts w1)\<rparr>
         | Some e \<Rightarrow> w1)"

subsection \<open>Strings\<close>

text \<open>\<open>Date.now()\<close> inside a template literal: the decimal digits of the number.\<close>

definition digit_char :: "nat \<Rightarrow> char" where
  "digit_char n = ''0123456789'' ! n"

function show_nat :: "nat \<Rightarrow> string" where
  "show_nat n = (if n < 10 then [digit_char n] else show_nat (n div 10) @ [digit_char (n mod 10)])"
  by pat_completeness auto
termination
  by (relation "measure id") auto

text \<open>\<open>s.split(d)\<close> for a one-character separator, and \<open>Array.prototype.pop\<close>'s return value.\<close>

fun split_chr :: "char \<Rightarrow> string \<Rightarrow> string list" where
  "split_chr d [] = [[]]"
| "split_chr d (c # cs) =
     (if c = d then [] # split_chr d cs
      else (let r = split_chr d cs in (c # hd r) # tl r))"

definition pop :: "'a list \<Rightarrow> 'a option" where
  "pop xs = (if xs = [] then None else Some (last xs))"

section \<open>The citizen SOS screen (\<open>app/(citizen)/sos.tsx\<close>)\<close>

datatype SOSStatus = Idle | Activating | Active | Uploading | Done

text \<open>
  The two closures handed to \<open>setTimeout\<close>: \<open>deactivateSOS\<close> schedules one that only sets the
  status to idle; \<open>uploadEvidence\<close> schedules one that also clears the alert id and the
  elapsed seconds.
\<close>

datatype timeout_cb = StatusToIdle | SessionToIdle

text \<open>
  The component's state hooks and refs. \<open>recordingFor\<close> is the \<open>alertData.id\<close> captured by
  the pending \<open>recordAsync().then(...)\<close> closure, \<open>timeouts\<close> the scheduled callbacks.
\<close>

record session =
  sosStatus :: SOSStatus
  alertId :: "string option"
  elapsedSeconds :: nat
  isRecordingRef :: bool
  timerRef :: bool
  recordingFor :: "string option"
  timeouts :: "timeout_cb list"

text \<open>What the collaborators answer during one \<open>activateSOS\<close>.\<close>

record activate_env =
  location :: "js_error + (real \<times> real)"
  session_user :: "string option"
  insert_reply :: "js_error + string"
  created_at :: string
  push_reply :: "js_error option"
  cameraRef :: bool
  perm_camera :: bool
  perm_microphone :: bool
  platform_web :: bool

definition startTimer :: "session \<Rightarrow> session" where
  "startTimer s = s\<lparr>elapsedSeconds := 0, timerRef := True\<rparr>"

definition stopTimer :: "session \<Rightarrow> session" where
  "stopTimer s = (if timerRef s then s\<lparr>timerRef := False\<rparr> else s)"

text \<open>The interval callback \<open>setElapsedSeconds(s => s + 1)\<close>.\<close>

definition tick :: "session \<Rightarrow> session" where
  "tick s = (if timerRef s then s\<lparr>elapsedSeconds := elapsedSeconds s + 1\<rparr> else s)"

text \<open>The \<open>catch\<close> block of \<open>activateSOS\<close>.\<close>

definition activate_catch :: "js_error \<Rightarrow> session \<times> world \<Rightarrow> session \<times> world" where
  "activate_catch e sw =
     (let s = fst sw; w = snd sw
      in (s\<lparr>sosStatus := Idle\<rparr>,
          alert_dialog ''SOS Error'' (message_or e ''Failed to activate SOS. Please try again.'')
            (console_log ''SOS activation error:'' w)))"

text \<open>The object literal of the insert: \<open>user_id\<close> is left out when there is no signed-in user.\<close>

definition sos_insert_payload :: "string option \<Rightarrow> real \<Rightarrow> real \<Rightarrow> payload" where
  "sos_insert_payload uid latitude longitude =
     (case uid of None \<Rightarrow> [] | Some u \<Rightarrow> [(C_user_id, VText u)])
       @ [(C_lat, VNum latitude), (C_lng, VNum longitude), (C_status, VText ''active'')]"

text \<open>Steps 3 and 4 of \<open>activateSOS\<close> and its last two statements, after the insert succeeded.\<close>

definition activate_after_insert ::
  "activate_env \<Rightarrow> string \<Rightarrow> real \<Rightarrow> real \<Rightarrow> session \<times> world \<Rightarrow> session \<times> world" where
  "activate_after_insert env new_id latitude longitude sw =
     (let s = fst sw; w = snd sw;
          s1 = s\<lparr>alertId := Some new_id\<rparr>;
          w1 = do_call (InvokePush new_id latitude longitude) w;
          w2 = (case push_reply env of
                  None \<Rightarrow> w1
                | Some e \<Rightarrow>
                    console_log ''Push notification failed (Edge Function may not be deployed):'' w1);
          recording = (cameraRef env \<and> perm_camera env \<and> perm_microphone env \<and> \<not> platform_web env);
          s2 = (if recording then s1\<lparr>isRecordingRef := True, recordingFor := Some new_id\<rparr> else s1);
          w3 = (if recording then do_call RecordAsync w2 else w2)
      in (startTimer (s2\<lparr>sosStatus := Active\<rparr>), w3))"

text \<open>
  A handler is a closure of the render that made it: the \<open>sosStatus\<close> that \<open>activateSOS\<close>
  tests is the constant that render showed, here \<open>seen\<close>, not the state at the time of the
  call. Past the guard the handler only writes the status.
\<close>

definition activateSOS_of ::
  "SOSStatus \<Rightarrow> activate_env \<Rightarrow> session \<times> world \<Rightarrow> session \<times> world" where
  "activateSOS_of seen env sw =
     (let s = fst sw; w = snd sw
      in if seen \<noteq> Idle then (s, w)
         else
           let s1 = s\<lparr>sosStatus := Activating\<rparr>;
               w1 = do_call GetCurrentPosition w
           in case location env of
                Inl e \<Rightarrow> activate_catch e (s1, w1)
              | Inr (latitude, longitude) \<Rightarrow>
                  (let p = sos_insert_payload (session_user env) latitude longitude;
                       w2 = do_call (Insert p) w1
                   in case insert_reply env of
                        Inl e \<Rightarrow> activate_catch e (s1, w2)
                      | Inr new_id \<Rightarrow>
                          activate_after_insert env new_id latitude longitude
                            (s1, w2\<lparr>sos_alerts := db_insert new_id (created_at env) p (sos_alerts w2)\<rparr>)))"

text \<open>\<open>activateSOS\<close> as the button of the current render calls it: it saw the current status.\<close>

definition activateSOS :: "activate_env \<Rightarrow> session \<times> world \<Rightarrow> session \<times> world" where
  "activateSOS env sw = activateSOS_of (sosStatus (fst sw)) env sw"

record deactivate_env =
  d_cameraRef :: bool
  d_update_reply :: "js_error option"

definition deactivateSOS :: "deactivate_env \<Rightarrow> session \<times> world \<Rightarrow> session \<times> world" where
  "deactivateSOS env sw =
     (let s = fst sw; w = snd sw
      in if sosStatus s \<noteq> Active then (s, w)
         else
           let s1 = (stopTimer s)\<lparr>sosStatus := Uploading\<rparr>
           in if d_cameraRef env \<and> isRecordingRef s1
              then (s1\<lparr>isRecordingRef := False\<rparr>, do_call StopRecording w)
              else
                let w1 = (if truthy (alertId s1)
                          then store_update (d_update_reply env) (the (alertId s1))
                                 [(C_status, VText ''resolved'')] w
                          else w)
                in (s1\<lparr>sosStatus := Done, timeouts := timeouts s1 @ [StatusToIdle]\<rparr>, w1))"

record upload_env =
  now :: nat
  fetch_reply :: "js_error + byte list"
  upload_reply :: "js_error option"
  update_reply :: "js_error option"

text \<open>The \<open>catch\<close> block of \<open>uploadEvidence\<close>.\<close>

definition upload_catch :: "js_error \<Rightarrow> session \<times> world \<Rightarrow> session \<times> world" where
  "upload_catch e sw =
     (let s = fst sw; w = snd sw
      in (s\<lparr>sosStatus := Idle\<rparr>,
          alert_dialog ''Upload Failed'' (message_or e ''Evidence upload failed.'')
            (console_log ''Upload error:'' w)))"

definition sos_fileName :: "string \<Rightarrow> string \<Rightarrow> nat \<Rightarrow> string" where
  "sos_fileName uri i t =
     (let fileExt = (case pop (split_chr CHR ''.'' uri) of None \<Rightarrow> ''mp4'' | Some x \<Rightarrow> x)
      in ''sos_'' @ i @ ''_'' @ show_nat t @ ''.'' @ fileExt)"

definition uploadEvidence ::
  "upload_env \<Rightarrow> string \<Rightarrow> string \<Rightarrow> session \<times> world \<Rightarrow> session \<times> world" where
  "uploadEvidence env uri i sw =
     (let s = fst sw; w = snd sw;
          fileName = sos_fileName uri i (now env);
          w1 = do_call (Fetch uri) w
      in case fetch_reply env of
           Inl e \<Rightarrow> upload_catch e (s, w1)
         | Inr blob \<Rightarrow>
             (let w2 = do_call (Upload fileName blob) w1
              in case upload_reply env of
                   Some e \<Rightarrow> upload_catch e (s, w2)
                 | None \<Rightarrow>
                     (let w3 = w2\<lparr>sos_evidence := sos_evidence w2 @ [(fileName, blob)]\<rparr>;
                          w4 = store_update (update_reply env) i
                                 [(C_video_path, VText fileName), (C_status, VText ''resolved'')] w3
                      in (s\<lparr>sosStatus := Done, timeouts := timeouts s @ [SessionToIdle]\<rparr>, w4))))"

text \<open>
  The \<open>.then\<close> callback of \<open>recordAsync()\<close>, run when the recording stops:
  \<open>if (video?.uri) await uploadEvidence(video.uri, alertData.id)\<close>.
\<close>

definition recordingStopped ::
  "upload_env \<Rightarrow> string option \<Rightarrow> session \<times> world \<Rightarrow> session \<times> world" where
  "recordingStopped env video_uri sw =
     (let s = fst sw; w = snd sw
      in case recordingFor s of
           None \<Rightarrow> (s, w)
         | Some i \<Rightarrow>
             if truthy video_uri
             then uploadEvidence env (the video_uri) i (s\<lparr>recordingFor := None\<rparr>, w)
             else (s\<lparr>recordingFor := None\<rparr>, w))"

text \<open>The \<open>.catch\<close> callback of \<open>recordAsync()\<close>: the rejection is logged and nothing else happens.\<close>

definition recordingRejected :: "session \<times> world \<Rightarrow> session \<times> world" where
  "recordingRejected sw =
     (let s = fst sw; w = snd sw
      in case recordingFor s of
           None \<Rightarrow> (s, w)
         | Some i \<Rightarrow> (s\<lparr>recordingFor := None\<rparr>, console_log ''Recording error:'' w))"

text \<open>Running the oldest scheduled \<open>setTimeout\<close> callback.\<close>

fun run_timeout :: "timeout_cb \<Rightarrow> session \<Rightarrow> session" where
  "run_timeout StatusToIdle s = s\<lparr>sosStatus := Idle\<rparr>"
| "run_timeout SessionToIdle s = s\<lparr>sosStatus := Idle, alertId := None, elapsedSeconds := 0\<rparr>"

definition fire_timeout :: "session \<Rightarrow> session" where
  "fire_timeout s =
     (case timeouts s of
        [] \<Rightarrow> s
      | cb # rest \<Rightarrow> run_timeout cb (s\<lparr>timeouts := rest\<rparr>))"

text \<open>
  The states of the screen: it starts from the initial values of its hooks and refs, and
  then runs its handlers and callbacks in any order, with any answers of the collaborators.
  The store gives every inserted row a non-empty id.
\<close>

definition initial_session :: session where
  "initial_session =
     \<lparr>sosStatus = Idle, alertId = None, elapsedSeconds = 0, isRecordingRef = False,
      timerRef = False, recordingFor = None, timeouts = []\<rparr>"

inductive reachable :: "session \<times> world \<Rightarrow> bool" where
  start: "reachable (initial_session, w)"
| activate: "reachable sw \<Longrightarrow> insert_reply env \<noteq> Inr [] \<Longrightarrow> reachable (activateSOS env sw)"
| deactivate: "reachable sw \<Longrightarrow> reachable (deactivateSOS env sw)"
| stopped: "reachable sw \<Longrightarrow> reachable (recordingStopped env video sw)"
| rejected: "reachable sw \<Longrightarrow> reachable (recordingRejected sw)"
| ticked: "reachable (s, w) \<Longrightarrow> reachable (tick s, w)"
| fired: "reachable (s, w) \<Longrightarrow> reachable (fire_timeout s, w)"

section \<open>The live demo dashboards (\<open>app/(tabs)/index.tsx\<close> and its earlier revision)\<close>

text \<open>
  The texts shown in the status line of the dashboards. \<open>index.tsx\<close> shows
  \<open>System Ready\<close>, \<open>LOCATING...\<close>, \<open>BROADCASTING...\<close>, \<open>ALERT LIVE - REC\<close>,
  \<open>FINALIZING EVIDENCE...\<close>, \<open>Stop Error\<close>, \<open>SYNCING EVIDENCE...\<close>, \<open>EVIDENCE SECURED\<close>,
  \<open>Sync Failed\<close> and \<open>Broadcast Failed\<close>; the earlier revision shows \<open>ALERT LIVE - RECORDING\<close>,
  \<open>SYNCING VIDEO EVIDENCE\<close> and \<open>Broadcast Error\<close> in the corresponding places; the
  pivot dashboard shows \<open>System Standby\<close>, \<open>RECORDING EVIDENCE\<close>, \<open>System Error\<close>,
  \<open>SECURE UPLOAD IN PROGRESS\<close>, \<open>ALERT BROADCASTED\<close> and \<open>Upload Failed\<close>.
\<close>

datatype status_label =
    SystemReady | Locating | Broadcasting | AlertLiveRec | FinalizingEvidence
  | SyncingEvidence | EvidenceSecured | SyncFailed | BroadcastFailed
  | SystemStandby | RecordingEvidence | SystemError | SecureUploadInProgress
  | AlertBroadcasted | UploadFailed | BroadcastError | StopError

text \<open>
  The state hooks of a dashboard. \<open>recordingCb\<close> holds the \<open>data.id\<close> captured by each
  \<open>recordAsync().then(...)\<close> closure that has not run yet, oldest first; \<open>pendingReady\<close>
  counts the scheduled \<open>setStatusText('System Ready')\<close> callbacks.
\<close>

record dashboard =
  isSOSActive :: bool
  activeAlertId :: "string option"
  statusText :: status_label
  recordingCb :: "string list"
  pendingReady :: nat

text \<open>The \<open>catch\<close> block of \<open>startSOS\<close> in \<open>index.tsx\<close>.\<close>

definition tabs_start_catch :: "js_error \<Rightarrow> dashboard \<times> world \<Rightarrow> dashboard \<times> world" where
  "tabs_start_catch e dw =
     (let d = fst dw; w = snd dw
      in (d\<lparr>isSOSActive := False, statusText := BroadcastFailed\<rparr>,
          alert_dialog ''SOS Error'' (message_or e ''Failed to trigger alert.'')
            (console_log ''SOS Error [startSOS]:'' w)))"

text \<open>
  \<open>startSOS\<close> as a closure: \<open>seen\<close> is the \<open>isSOSActive\<close> that the render which made the handler
  showed.
\<close>

definition tabs_startSOS_of ::
  "bool \<Rightarrow> activate_env \<Rightarrow> dashboard \<times> world \<Rightarrow> dashboard \<times> world" where
  "tabs_startSOS_of seen env dw =
     (let d = fst dw; w = snd dw
      in if seen then (d, w)
         else
           let d1 = d\<lparr>isSOSActive := True, statusText := Locating\<rparr>;
               w1 = do_call GetCurrentPosition w
           in case location env of
                Inl e \<Rightarrow> tabs_start_catch e (d1, w1)
              | Inr (latitude, longitude) \<Rightarrow>
                  (let d2 = d1\<lparr>statusText := Broadcasting\<rparr>;
                       p = [(C_lat, VNum latitude), (C_lng, VNum longitude), (C_status, VText ''active'')];
                       w2 = do_call (Insert p) w1
                   in case insert_reply env of
                        Inl e \<Rightarrow> tabs_start_catch e (d2, console_log ''SOS Error [DB Insert]:'' w2)
                      | Inr new_id \<Rightarrow>
                          (let w3 = w2\<lparr>sos_alerts := db_insert new_id (created_at env) p (sos_alerts w2)\<rparr>;
                               d3 = d2\<lparr>activeAlertId := Some new_id, statusText := AlertLiveRec\<rparr>
                           in if cameraRef env
                              then (d3\<lparr>recordingCb := recordingCb d3 @ [new_id]\<rparr>, do_call RecordAsync w3)
                              else (d3, w3))))"

text \<open>\<open>startSOS\<close> as the button of the current render calls it.\<close>

definition tabs_startSOS :: "activate_env \<Rightarrow> dashboard \<times> world \<Rightarrow> dashboard \<times> world" where
  "tabs_startSOS env dw = tabs_startSOS_of (isSOSActive (fst dw)) env dw"


text \<open>\<open>alert_${alertId}_${Date.now()}.mp4\<close>\<close>

definition alert_fileName :: "string \<Rightarrow> nat \<Rightarrow> string" where
  "alert_fileName i t = ''alert_'' @ i @ ''_'' @ show_nat t @ ''.mp4''"

text \<open>
  The repacking loop of \<open>uploadEvidence\<close> in \<open>index.tsx\<close>. A JavaScript string is its list of
  character codes; \<open>new Uint8Array(n)\<close> is \<open>n\<close> zero bytes; storing a number into a
  \<open>Uint8Array\<close> keeps it modulo 256.
\<close>

function repack_from :: "nat list \<Rightarrow> nat \<Rightarrow> byte list \<Rightarrow> byte list" where
  "repack_from binaryString i bytes =
     (if i < length binaryString
      then repack_from binaryString (i + 1) (bytes[i := of_nat (binaryString ! i)])
      else bytes)"
  by pat_completeness auto
termination
  by (relation "measure (\<lambda>(binaryString, i, bytes). length binaryString - i)") auto

definition repack :: "nat list \<Rightarrow> byte list" where
  "repack binaryString = repack_from binaryString 0 (replicate (length binaryString) 0)"

text \<open>
  What the collaborators answer during one \<open>uploadEvidence\<close> of \<open>index.tsx\<close>:
  \<open>read_reply\<close> is the result of \<open>FileSystem.readAsStringAsync(uri, Base64)\<close>.
\<close>

record tabs_upload_env =
  t_now :: nat
  read_reply :: "js_error + string"
  t_upload_reply :: "js_error option"
  t_update_reply :: "js_error option"

text \<open>The \<open>catch\<close> and \<open>finally\<close> blocks of \<open>uploadEvidence\<close> in \<open>index.tsx\<close>.\<close>

definition tabs_upload_catch :: "js_error \<Rightarrow> dashboard \<times> world \<Rightarrow> dashboard \<times> world" where
  "tabs_upload_catch e dw =
     (let d = fst dw; w = snd dw
      in (d\<lparr>statusText := SyncFailed, activeAlertId := None\<rparr>,
          alert_dialog ''Evidence Error'' (message_or e ''Video captured but failed to upload.'')
            (console_log ''SOS Error [uploadEvidence]:'' w)))"

text \<open>
  \<open>uploadEvidence\<close> of \<open>index.tsx\<close>. Its first argument is the function \<open>decode\<close> that the
  file imports from the \<open>base-64\<close> package: it throws or returns the binary string.
\<close>

definition tabs_uploadEvidence ::
  "(string \<Rightarrow> js_error + nat list) \<Rightarrow> tabs_upload_env \<Rightarrow> string \<Rightarrow> string
     \<Rightarrow> dashboard \<times> world \<Rightarrow> dashboard \<times> world" where
  "tabs_uploadEvidence decode env uri i dw =
     (let d = (fst dw)\<lparr>statusText := SyncingEvidence\<rparr>;
          w1 = do_call (ReadAsBase64 uri) (snd dw)
      in case read_reply env of
           Inl e \<Rightarrow> tabs_upload_catch e (d, w1)
         | Inr base64 \<Rightarrow>
             (case decode base64 of
                Inl e \<Rightarrow> tabs_upload_catch e (d, w1)
              | Inr binaryString \<Rightarrow>
                  (let bytes = repack binaryString;
                       fileName = alert_fileName i (t_now env);
                       w2 = do_call (Upload fileName bytes) w1
                   in case t_upload_reply env of
                        Some e \<Rightarrow> tabs_upload_catch e (d, console_log ''SOS Error [Storage Upload]:'' w2)
                      | None \<Rightarrow>
                          (let w3 = w2\<lparr>sos_evidence := sos_evidence w2 @ [(fileName, bytes)]\<rparr>;
                               w4 = store_update (t_update_reply env) i
                                      [(C_video_path, VText fileName), (C_status, VText ''resolved'')] w3
                           in (d\<lparr>statusText := EvidenceSecured, pendingReady := pendingReady d + 1,
                                 activeAlertId := None\<rparr>, w4)))))"

subsection \<open>The earlier revision of the dashboard (unnamed source file 3)\<close>

definition rev_start_catch :: "js_error \<Rightarrow> dashboard \<times> world \<Rightarrow> dashboard \<times> world" where
  "rev_start_catch e dw =
     (let d = fst dw; w = snd dw
      in (d\<lparr>isSOSActive := False, statusText := BroadcastError\<rparr>,
          alert_dialog ''System Error'' (message_or_falsy e ''Failed to trigger SOS.'')
            (console_log ''error'' w)))"

definition rev_startSOS :: "activate_env \<Rightarrow> dashboard \<times> world \<Rightarrow> dashboard \<times> world" where
  "rev_startSOS env dw =
     (let d = fst dw; w = snd dw
      in if isSOSActive d then (d, w)
         else
           let d1 = d\<lparr>isSOSActive := True, statusText := Broadcasting\<rparr>;
               w1 = do_call GetCurrentPosition w
           in case location env of
                Inl e \<Rightarrow> rev_start_catch e (d1, w1)
              | Inr (latitude, longitude) \<Rightarrow>
                  (let p = [(C_lat, VNum latitude), (C_lng, VNum longitude), (C_status, VText ''active'')];
                       w2 = do_call (Insert p) w1
                   in case insert_reply env of
                        Inl e \<Rightarrow> rev_start_catch e (d1, w2)
                      | Inr new_id \<Rightarrow>
                          (let w3 = w2\<lparr>sos_alerts := db_insert new_id (created_at env) p (sos_alerts w2)\<rparr>;
                               d2 = d1\<lparr>activeAlertId := Some new_id, statusText := AlertLiveRec\<rparr>
                           in if cameraRef env
                              then (d2\<lparr>recordingCb := recordingCb d2 @ [new_id]\<rparr>, do_call RecordAsync w3)
                              else (d2, w3))))"

definition rev_stopSOS :: "bool \<Rightarrow> dashboard \<times> world \<Rightarrow> dashboard \<times> world" where
  "rev_stopSOS camera dw =
     (let d = fst dw; w = snd dw
      in if \<not> isSOSActive d then (d, w)
         else (d\<lparr>isSOSActive := False, statusText := FinalizingEvidence\<rparr>,
               if camera then do_call StopRecording w else w))"

text \<open>
  The \<open>catch\<close> block of its \<open>uploadEvidence\<close> shows a fixed message; the \<open>finally\<close> block
  clears the alert id.
\<close>

definition rev_upload_catch :: "js_error \<Rightarrow> dashboard \<times> world \<Rightarrow> dashboard \<times> world" where
  "rev_upload_catch e dw =
     (let d = fst dw; w = snd dw
      in (d\<lparr>statusText := SyncFailed, activeAlertId := None\<rparr>,
          alert_dialog ''Evidence Error'' ''Video captured but failed to upload.''
            (console_log ''error'' w)))"

definition rev_uploadEvidence ::
  "upload_env \<Rightarrow> string \<Rightarrow> string \<Rightarrow> dashboard \<times> world \<Rightarrow> dashboard \<times> world" where
  "rev_uploadEvidence env uri i dw =
     (let d = (fst dw)\<lparr>statusText := SyncingEvidence\<rparr>;
          w1 = do_call (Fetch uri) (snd dw)
      in case fetch_reply env of
           Inl e \<Rightarrow> rev_upload_catch e (d, w1)
         | Inr blob \<Rightarrow>
             (let fileName = alert_fileName i (now env);
                  w2 = do_call (Upload fileName blob) w1
              in case upload_reply env of
                   Some e \<Rightarrow> rev_upload_catch e (d, w2)
                 | None \<Rightarrow>
                     (let w3 = w2\<lparr>sos_evidence := sos_evidence w2 @ [(fileName, blob)]\<rparr>;
                          w4 = store_update (update_reply env) i [(C_video_path, VText fileName)] w3
                      in (d\<lparr>statusText := EvidenceSecured, pendingReady := pendingReady d + 1,
                            activeAlertId := None\<rparr>, w4))))"

section \<open>The pivot dashboard (unnamed source file 2)\<close>

text \<open>
  Its state hooks; \<open>recordingAt\<close> is the coordinate pair captured by the pending
  \<open>recordAsync().then(...)\<close> closure, \<open>pendingStop\<close> counts the scheduled \<open>stopSOS\<close> calls and
  \<open>pendingStandby\<close> the scheduled \<open>setStatusText('System Standby')\<close> calls.
\<close>

record pivot =
  isRecording :: bool
  pivotText :: status_label
  recordingAt :: "(real \<times> real) option"
  pendingStop :: nat
  pendingStandby :: nat

definition handleSOS :: "activate_env \<Rightarrow> pivot \<times> world \<Rightarrow> pivot \<times> world" where
  "handleSOS env pw =
     (let p = fst pw; w = snd pw
      in if isRecording p then (p, w)
         else
           let p1 = p\<lparr>isRecording := True, pivotText := RecordingEvidence\<rparr>;
               w1 = do_call GetCurrentPosition w
           in case location env of
                Inl e \<Rightarrow>
                  (p1\<lparr>isRecording := False, pivotText := SystemError\<rparr>,
                   alert_dialog ''Hardware Error'' ''Could not access location or camera.''
                     (console_log ''error'' w1))
              | Inr coords \<Rightarrow>
                  if cameraRef env
                  then (p1\<lparr>recordingAt := Some coords, pendingStop := pendingStop p1 + 1\<rparr>,
                        do_call RecordAsync w1)
                  else (p1, w1))"

text \<open>\<open>demo_sos_${Date.now()}.mp4\<close>\<close>

definition demo_fileName :: "nat \<Rightarrow> string" where
  "demo_fileName t = ''demo_sos_'' @ show_nat t @ ''.mp4''"

definition process_catch :: "js_error \<Rightarrow> pivot \<times> world \<Rightarrow> pivot \<times> world" where
  "process_catch e pw =
     (let p = fst pw; w = snd pw
      in (p\<lparr>pivotText := UploadFailed\<rparr>,
          alert_dialog ''Network Sync Error'' (message_or_falsy e ''Failed to sync SOS data.'')
            (console_log ''error'' w)))"

text \<open>
  What the collaborators answer during one \<open>processAndUpload\<close>: the replies of
  \<open>uploadEvidence\<close> and, for the insert, the error or the id the store gives the new row.
\<close>

record process_env = upload_env +
  p_insert_reply :: "js_error + string"
  p_created_at :: string

definition processAndUpload ::
  "process_env \<Rightarrow> string \<Rightarrow> real \<Rightarrow> real \<Rightarrow> pivot \<times> world \<Rightarrow> pivot \<times> world" where
  "processAndUpload env uri lat lng pw =
     (let p = (fst pw)\<lparr>pivotText := SecureUploadInProgress\<rparr>;
          w1 = do_call (Fetch uri) (snd pw)
      in case fetch_reply env of
           Inl e \<Rightarrow> process_catch e (p, w1)
         | Inr blob \<Rightarrow>
             (let fileName = demo_fileName (now env);
                  w2 = do_call (Upload fileName blob) w1
              in case upload_reply env of
                   Some e \<Rightarrow> process_catch e (p, w2)
                 | None \<Rightarrow>
                     (let w3 = w2\<lparr>sos_evidence := sos_evidence w2 @ [(fileName, blob)]\<rparr>;
                          row = [(C_lat, VNum lat), (C_lng, VNum lng),
                                 (C_video_path, VText fileName), (C_status, VText ''active'')];
                          w4 = do_call (Insert row) w3
                      in case p_insert_reply env of
                           Inl e \<Rightarrow> process_catch e (p, w4)
                         | Inr new_id \<Rightarrow>
                             (p\<lparr>pivotText := AlertBroadcasted, pendingStandby := pendingStandby p + 1\<rparr>,
                              w4\<lparr>sos_alerts := db_insert new_id (p_created_at env) row (sos_alerts w4)\<rparr>))))"

section \<open>Base64, as the file reader writes it and the decoder reads it\<close>

text \<open>
  \<open>uploadEvidence\<close> of \<open>index.tsx\<close> reads the recording with
  \<open>FileSystem.readAsStringAsync(uri, {encoding: Base64})\<close> and hands the text to \<open>decode\<close> of
  the \<open>base-64\<close> package. Both are libraries outside the repository; they are described
  here by the Base64 encoding of RFC 4648: three bytes make four six-bit numbers, each
  written as the character at that position of the alphabet; a last group of one or two
  bytes is filled with zero bits and the text is padded with \<open>=\<close> to a multiple of four
  characters.
\<close>

definition b64_table :: string where
  "b64_table = ''ABCDEFGHIJKLMNOPQRSTUVWXYZabcdefghijklmnopqrstuvwxyz0123456789+/''"

definition b64_char :: "nat \<Rightarrow> char" where
  "b64_char k = b64_table ! k"

fun index_of :: "'a \<Rightarrow> 'a list \<Rightarrow> nat option" where
  "index_of x [] = None"
| "index_of x (y # ys) = (if x = y then Some 0 else map_option Suc (index_of x ys))"

definition b64_index :: "char \<Rightarrow> nat option" where
  "b64_index c = index_of c b64_table"

fun sextets :: "byte list \<Rightarrow> nat list" where
  "sextets (a # b # c # rest) =
     [unat a div 4, (unat a mod 4) * 16 + unat b div 16, (unat b mod 16) * 4 + unat c div 64,
      unat c mod 64] @ sextets rest"
| "sextets [a, b] = [unat a div 4, (unat a mod 4) * 16 + unat b div 16, (unat b mod 16) * 4]"
| "sextets [a] = [unat a div 4, (unat a mod 4) * 16]"
| "sextets [] = []"

definition b64_encode :: "byte list \<Rightarrow> string" where
  "b64_encode bs =
     map b64_char (sextets bs) @ replicate ((3 - length bs mod 3) mod 3) (CHR ''='')"

text \<open>
  The decoder ignores white space, accepts the text with or without its padding, throws on
  any other character and on a length that leaves one character over, and returns the
  binary string: one character code below 256 for each byte.
\<close>

definition is_space :: "char \<Rightarrow> bool" where
  "is_space c = (c \<in> set [CHR 0x09, CHR 0x0A, CHR 0x0C, CHR 0x0D, CHR '' ''])"

definition strip_padding :: "string \<Rightarrow> string" where
  "strip_padding s =
     (case rev s of
        [] \<Rightarrow> s
      | [c1] \<Rightarrow> if c1 = CHR ''='' then [] else s
      | c1 # c2 # r \<Rightarrow>
          if c1 = CHR ''='' then (if c2 = CHR ''='' then rev r else rev (c2 # r)) else s)"

fun decode_groups :: "nat list \<Rightarrow> nat list" where
  "decode_groups (a # b # c # d # rest) =
     [(a * 64 + b) div 16 mod 256,
      ((a * 64 + b) * 64 + c) div 4 mod 256,
      (((a * 64 + b) * 64 + c) * 64 + d) mod 256] @ decode_groups rest"
| "decode_groups [a, b, c] = [(a * 64 + b) div 16 mod 256, ((a * 64 + b) * 64 + c) div 4 mod 256]"
| "decode_groups [a, b] = [(a * 64 + b) div 16 mod 256]"
| "decode_groups [a] = []"
| "decode_groups [] = []"

definition b64_decode :: "string \<Rightarrow> js_error + nat list" where
  "b64_decode input =
     (let s = filter (\<lambda>c. \<not> is_space c) input;
          t = (if length s mod 4 = 0 then strip_padding s else s)
      in if length t mod 4 = 1 \<or> (\<exists>c \<in> set t. b64_index c = None)
         then Inl (JsError (Some ''Invalid character: the string to be decoded is not correctly encoded.''))
         else Inr (decode_groups (map (\<lambda>c. the (b64_index c)) t)))"

section \<open>The scenario of the specification\<close>

text \<open>
  Activation at the coordinates (37.7749, -122.4194) on an empty table, then a stop after
  the recording \<open>clip.mp4\<close> was made; the store names the new row \<open>a1\<close>.
\<close>

abbreviation scenario_world :: world where
  "scenario_world \<equiv>
     \<lparr>sos_alerts = [], sos_evidence = [], calls = [], dialogs = [], console = []\<rparr>"

abbreviation scenario_session :: session where
  "scenario_session \<equiv>
     \<lparr>sosStatus = Idle, alertId = None, elapsedSeconds = 0, isRecordingRef = False,
      timerRef = False, recordingFor = None, timeouts = []\<rparr>"

abbreviation scenario_env :: activate_env where
  "scenario_env \<equiv>
     \<lparr>location = Inr (37.7749, -122.4194), session_user = Some ''u1'',
      insert_reply = Inr ''a1'', created_at = ''t0'', push_reply = None, cameraRef = True,
      perm_camera = True, perm_microphone = True, platform_web = False\<rparr>"

abbreviation scenario_upload :: upload_env where
  "scenario_upload \<equiv>
     \<lparr>now = 1700000000000, fetch_reply = Inr [1, 2, 3], upload_reply = None,
      update_reply = None\<rparr>"

abbreviation scenario_dashboard :: dashboard where
  "scenario_dashboard \<equiv>
     \<lparr>isSOSActive = False, activeAlertId = None, statusText = SystemReady,
      recordingCb = [], pendingReady = 0\<rparr>"

abbreviation scenario_pivot :: pivot where
  "scenario_pivot \<equiv>
     \<lparr>isRecording = False, pivotText = SystemStandby, recordingAt = None,
      pendingStop = 0, pendingStandby = 0\<rparr>"

abbreviation scenario_process :: process_env where
  "scenario_process \<equiv>
     \<lparr>now = 1700000000000, fetch_reply = Inr [1, 2, 3], upload_reply = None,
      update_reply = None, p_insert_reply = Inr ''a1'', p_created_at = ''t0''\<rparr>"

abbreviation scenario_active :: "session \<times> world" where
  "scenario_active \<equiv> activateSOS scenario_env (scenario_session, scenario_world)"

abbreviation web_env :: activate_env where
  "web_env \<equiv> scenario_env\<lparr>cameraRef := False, platform_web := True\<rparr>"

abbreviation web_active :: "session \<times> world" where
  "web_active \<equiv> activateSOS web_env (scenario_session, scenario_world)"

abbreviation no_camera :: deactivate_env where
  "no_camera \<equiv> \<lparr>d_cameraRef = False, d_update_reply = None\<rparr>"

abbreviation with_camera :: deactivate_env where
  "with_camera \<equiv> \<lparr>d_cameraRef = True, d_update_reply = None\<rparr>"

abbreviation failing_upload :: upload_env where
  "failing_upload \<equiv> scenario_upload\<lparr>upload_reply := Some (JsError (Some ''bucket unavailable''))\<rparr>"



abbreviation denied_env :: activate_env where
  "denied_env \<equiv> scenario_env\<lparr>location := Inl (JsError (Some ''Location permission denied''))\<rparr>"

abbreviation failing_process :: process_env where
  "failing_process \<equiv> scenario_process\<lparr>upload_reply := Some (JsError (Some ''bucket unavailable''))\<rparr>"



abbreviation recording_failed :: "session \<times> world" where
  "recording_failed \<equiv> recordingRejected scenario_active"

abbreviation stuck_uploading :: "session \<times> world" where
  "stuck_uploading \<equiv> deactivateSOS with_camera recording_failed"

abbreviation scenario_tabs_upload :: tabs_upload_env where
  "scenario_tabs_upload \<equiv>
     \<lparr>t_now = 1700000000000, read_reply = Inr ''AQID'', t_upload_reply = None,
      t_update_reply = None\<rparr>"

section \<open>Auxiliary facts\<close>

lemmas effect_defs = do_call_def alert_dialog_def console_log_def store_update_def

lemmas sos_defs = activateSOS_def activateSOS_of_def activate_after_insert_def activate_catch_def
  deactivateSOS_def
  uploadEvidence_def upload_catch_def startTimer_def stopTimer_def truthy_def recordingStopped_def

lemmas tabs_defs = tabs_startSOS_def tabs_startSOS_of_def tabs_start_catch_def tabs_uploadEvidence_def
  tabs_upload_catch_def

lemmas rev_defs = rev_startSOS_def rev_start_catch_def rev_uploadEvidence_def rev_upload_catch_def

lemmas pivot_defs = handleSOS_def processAndUpload_def process_catch_def

lemma db_update_other:
  assumes "c \<notin> fst ` set p"
  shows "map (\<lambda>r. r c) (db_update i p tbl) = map (\<lambda>r. r c) tbl"
proof -
  have "map_of p c = None"
    using assms by (simp add: map_of_eq_None_iff)
  then show ?thesis
    by (simp add: db_update_def map_add_def)
qed

lemma run_timeout_idle [simp]: "sosStatus (run_timeout cb s) = Idle"
  by (cases cb) simp_all

lemma db_update_sets:
  assumes "r \<in> set (db_update i p tbl)" and "r C_id = Some (VText i)"
    and "map_of p C_id = None" and "map_of p c = Some v"
  shows "r c = Some v"
  using assms by (auto simp add: db_update_def map_add_def split: if_splits)

lemma show_nat_scenario: "show_nat 1700000000000 = ''1700000000000''"
  by (simp add: digit_char_def)

declare show_nat.simps [simp del]

subsection \<open>\<open>split\<close> and \<open>pop\<close>: the text after the last separator\<close>

lemma split_chr_not_Nil [simp]: "split_chr d s \<noteq> []"
  by (induction s) (auto simp: Let_def)

lemma split_chr_no_sep: "d \<notin> set s \<Longrightarrow> split_chr d s = [s]"
  by (induction s) (auto simp: Let_def)

lemma split_chr_sep_tl: "d \<in> set s \<Longrightarrow> tl (split_chr d s) \<noteq> []"
  by (induction s) (auto simp: Let_def)

lemma last_split_chr_append: "d \<notin> set b \<Longrightarrow> last (split_chr d (a @ d # b)) = b"
proof (induction a)
  case Nil
  then show ?case by (simp add: split_chr_no_sep)
next
  case (Cons c a)
  have more: "tl (split_chr d (a @ d # b)) \<noteq> []"
    by (rule split_chr_sep_tl) simp
  show ?case
  proof (cases "c = d")
    case True
    then show ?thesis using Cons by simp
  next
    case False
    have "last (split_chr d ((c # a) @ d # b)) = last (tl (split_chr d (a @ d # b)))"
      using False more by (simp add: Let_def)
    also have "\<dots> = last (split_chr d (a @ d # b))"
      using more by (simp add: last_tl)
    finally show ?thesis using Cons by simp
  qed
qed

lemma last_split_chr: "last (split_chr d s) = rev (takeWhile (\<lambda>c. c \<noteq> d) (rev s))"
proof (cases "d \<in> set s")
  case True
  then obtain a b where s: "s = a @ d # b" and b: "d \<notin> set b"
    by (meson split_list_last)
  have "takeWhile (\<lambda>c. c \<noteq> d) (rev b @ d # rev a) = rev b"
    using b by (simp add: takeWhile_append)
  then show ?thesis using s b by (simp add: last_split_chr_append)
next
  case False
  have whole: "takeWhile (\<lambda>c. c \<noteq> d) (rev s) = rev s"
    using False by (auto simp add: takeWhile_eq_all_conv)
  show ?thesis
    unfolding whole split_chr_no_sep [OF False] by simp
qed

lemma sos_fileName_eq:
  "sos_fileName uri i t
     = ''sos_'' @ i @ ''_'' @ show_nat t @ ''.'' @ rev (takeWhile (\<lambda>c. c \<noteq> CHR ''.'') (rev uri))"
  by (simp add: sos_fileName_def pop_def last_split_chr)

subsection \<open>A successful activation, screen by screen\<close>

lemma sos_activation:
  "sosStatus s = Idle \<and> location env = Inr (la, lo) \<and> insert_reply env = Inr nid \<longrightarrow>
      butlast (sos_alerts (snd (activateSOS env (s, w)))) = sos_alerts w \<and>
      last (sos_alerts (snd (activateSOS env (s, w)))) C_id = Some (VText nid) \<and>
      last (sos_alerts (snd (activateSOS env (s, w)))) C_status = Some (VText ''active'') \<and>
      last (sos_alerts (snd (activateSOS env (s, w)))) C_lat = Some (VNum la) \<and>
      last (sos_alerts (snd (activateSOS env (s, w)))) C_lng = Some (VNum lo) \<and>
      last (sos_alerts (snd (activateSOS env (s, w)))) C_video_path = None \<and>
      sos_evidence (snd (activateSOS env (s, w))) = sos_evidence w \<and>
      calls (snd (activateSOS env (s, w)))
        = calls w @ [GetCurrentPosition, Insert (sos_insert_payload (session_user env) la lo),
                     InvokePush nid la lo]
            @ (if cameraRef env \<and> perm_camera env \<and> perm_microphone env \<and> \<not> platform_web env
               then [RecordAsync] else []) \<and>
      sosStatus (fst (activateSOS env (s, w))) = Active \<and>
      alertId (fst (activateSOS env (s, w))) = Some nid"
  by (auto simp add: sos_defs effect_defs Let_def db_insert_def sos_insert_payload_def map_add_def
      split: option.splits)

lemma tabs_activation:
  "\<not> isSOSActive d \<and> location env = Inr (la, lo) \<and> insert_reply env = Inr nid \<longrightarrow>
      butlast (sos_alerts (snd (tabs_startSOS env (d, w)))) = sos_alerts w \<and>
      last (sos_alerts (snd (tabs_startSOS env (d, w)))) C_id = Some (VText nid) \<and>
      last (sos_alerts (snd (tabs_startSOS env (d, w)))) C_status = Some (VText ''active'') \<and>
      last (sos_alerts (snd (tabs_startSOS env (d, w)))) C_lat = Some (VNum la) \<and>
      last (sos_alerts (snd (tabs_startSOS env (d, w)))) C_lng = Some (VNum lo) \<and>
      last (sos_alerts (snd (tabs_startSOS env (d, w)))) C_video_path = None \<and>
      sos_evidence (snd (tabs_startSOS env (d, w))) = sos_evidence w \<and>
      calls (snd (tabs_startSOS env (d, w)))
        = calls w @ [GetCurrentPosition,
                     Insert [(C_lat, VNum la), (C_lng, VNum lo), (C_status, VText ''active'')]]
            @ (if cameraRef env then [RecordAsync] else []) \<and>
      isSOSActive (fst (tabs_startSOS env (d, w))) \<and>
      activeAlertId (fst (tabs_startSOS env (d, w))) = Some nid"
  by (auto simp add: tabs_defs effect_defs Let_def db_insert_def map_add_def split: option.splits)

lemma rev_activation:
  "\<not> isSOSActive d \<and> location env = Inr (la, lo) \<and> insert_reply env = Inr nid \<longrightarrow>
      butlast (sos_alerts (snd (rev_startSOS env (d, w)))) = sos_alerts w \<and>
      last (sos_alerts (snd (rev_startSOS env (d, w)))) C_id = Some (VText nid) \<and>
      last (sos_alerts (snd (rev_startSOS env (d, w)))) C_status = Some (VText ''active'') \<and>
      last (sos_alerts (snd (rev_startSOS env (d, w)))) C_lat = Some (VNum la) \<and>
      last (sos_alerts (snd (rev_startSOS env (d, w)))) C_lng = Some (VNum lo) \<and>
      last (sos_alerts (snd (rev_startSOS env (d, w)))) C_video_path = None \<and>
      sos_evidence (snd (rev_startSOS env (d, w))) = sos_evidence w \<and>
      calls (snd (rev_startSOS env (d, w)))
        = calls w @ [GetCurrentPosition,
                     Insert [(C_lat, VNum la), (C_lng, VNum lo), (C_status, VText ''active'')]]
            @ (if cameraRef env then [RecordAsync] else []) \<and>
      isSOSActive (fst (rev_startSOS env (d, w))) \<and>
      activeAlertId (fst (rev_startSOS env (d, w))) = Some nid"
  by (auto simp add: rev_defs effect_defs Let_def db_insert_def map_add_def split: option.splits)

lemma pivot_activation:
  "(\<not> isRecording p \<and> location env = Inr (la, lo) \<longrightarrow>
      sos_alerts (snd (handleSOS env (p, w))) = sos_alerts w \<and>
      calls (snd (handleSOS env (p, w)))
        = calls w @ [GetCurrentPosition] @ (if cameraRef env then [RecordAsync] else []) \<and>
      isRecording (fst (handleSOS env (p, w))) \<and>
      (cameraRef env \<longrightarrow> recordingAt (fst (handleSOS env (p, w))) = Some (la, lo))) \<and>
   (fetch_reply penv = Inr blob \<and> upload_reply penv = None \<and> p_insert_reply penv = Inr nid \<longrightarrow>
      butlast (sos_alerts (snd (processAndUpload penv uri la lo (p, w)))) = sos_alerts w \<and>
      last (sos_alerts (snd (processAndUpload penv uri la lo (p, w)))) C_status
         = Some (VText ''active'') \<and>
      last (sos_alerts (snd (processAndUpload penv uri la lo (p, w)))) C_lat = Some (VNum la) \<and>
      last (sos_alerts (snd (processAndUpload penv uri la lo (p, w)))) C_lng = Some (VNum lo) \<and>
      last (sos_alerts (snd (processAndUpload penv uri la lo (p, w)))) C_video_path
         = Some (VText (''demo_sos_'' @ show_nat (now penv) @ ''.mp4'')) \<and>
      calls (snd (processAndUpload penv uri la lo (p, w)))
        = calls w @ [Fetch uri, Upload (''demo_sos_'' @ show_nat (now penv) @ ''.mp4'') blob,
                     Insert [(C_lat, VNum la), (C_lng, VNum lo),
                             (C_video_path, VText (''demo_sos_'' @ show_nat (now penv) @ ''.mp4'')),
                             (C_status, VText ''active'')]])"
  by (auto simp add: pivot_defs effect_defs Let_def db_insert_def map_add_def demo_fileName_def
      split: option.splits)

subsection \<open>A failed activation and a failed upload insert nothing\<close>

lemma failed_activation:
  "isl (location fenv) \<or> isl (insert_reply fenv) \<longrightarrow>
     sos_alerts (snd (activateSOS fenv (s, w))) = sos_alerts w \<and>
     sos_alerts (snd (tabs_startSOS fenv (d, w))) = sos_alerts w \<and>
     sos_alerts (snd (rev_startSOS fenv (d, w))) = sos_alerts w"
  by (auto simp add: sos_defs tabs_defs rev_defs effect_defs Let_def split: sum.splits)

lemma handleSOS_table: "sos_alerts (snd (handleSOS env (p, w))) = sos_alerts w"
  by (auto simp add: pivot_defs effect_defs Let_def split: sum.splits)

lemma pivot_failed_upload:
  "(fetch_reply qenv = Inl e \<or> upload_reply qenv = Some e \<or> p_insert_reply qenv = Inl e \<longrightarrow>
      sos_alerts (snd (processAndUpload qenv uri la lo (p, w))) = sos_alerts w) \<and>
   (fetch_reply qenv = Inl e \<or> upload_reply qenv = Some e \<longrightarrow>
      calls (snd (processAndUpload qenv uri la lo (p, w)))
        = calls w @ (case fetch_reply qenv of
                       Inl x \<Rightarrow> [Fetch uri]
                     | Inr blob \<Rightarrow> [Fetch uri, Upload (''demo_sos_'' @ show_nat (now qenv) @ ''.mp4'') blob]))"
  by (auto simp add: pivot_defs effect_defs Let_def demo_fileName_def split: sum.splits option.splits)

subsection \<open>Base64: decoding what was encoded gives the bytes back\<close>

lemma regroup:
  fixes a b c :: nat
  shows "a div 4 * 64 + (a mod 4 * 16 + b div 16) = 16 * a + b div 16"
    and "(16 * a + b div 16) * 64 + (b mod 16 * 4 + c div 64) = 1024 * a + 4 * b + c div 64"
    and "(1024 * a + 4 * b + c div 64) * 64 + c mod 64 = 65536 * a + 256 * b + c"
proof -
  define qa ra qb rb qc rc
    where "qa = a div 4" and "ra = a mod 4" and "qb = b div 16" and "rb = b mod 16"
      and "qc = c div 64" and "rc = c mod 64"
  have a: "a = 4 * qa + ra" and b: "b = 16 * qb + rb" and c: "c = 64 * qc + rc"
    by (simp_all add: qa_def ra_def qb_def rb_def qc_def rc_def)
  show "a div 4 * 64 + (a mod 4 * 16 + b div 16) = 16 * a + b div 16"
    unfolding qa_def [symmetric] ra_def [symmetric] qb_def [symmetric] using a
    by (simp add: algebra_simps)
  show "(16 * a + b div 16) * 64 + (b mod 16 * 4 + c div 64) = 1024 * a + 4 * b + c div 64"
    unfolding qb_def [symmetric] rb_def [symmetric] qc_def [symmetric] using b
    by (simp add: algebra_simps)
  show "(1024 * a + 4 * b + c div 64) * 64 + c mod 64 = 65536 * a + 256 * b + c"
    unfolding qc_def [symmetric] rc_def [symmetric] using c
    by (simp add: algebra_simps)
qed

lemma first_byte:
  fixes a b :: nat
  assumes "a < 256" "b < 256"
  shows "(16 * a + b div 16) div 16 mod 256 = a"
proof -
  have "b div 16 < 16" using assms by simp
  then have "(16 * a + b div 16) div 16 = a" by simp
  then show ?thesis using assms by simp
qed

lemma second_byte:
  fixes a b c :: nat
  assumes "b < 256" "c < 256"
  shows "(1024 * a + 4 * b + c div 64) div 4 mod 256 = b"
proof -
  have "c div 64 < 4" using assms by simp
  then have "(4 * (256 * a + b) + c div 64) div 4 = 256 * a + b" by simp
  moreover have "4 * (256 * a + b) + c div 64 = 1024 * a + 4 * b + c div 64" by simp
  ultimately have "(1024 * a + 4 * b + c div 64) div 4 = 256 * a + b" by simp
  then show ?thesis using assms by simp
qed

lemma third_byte:
  fixes a b c :: nat
  assumes "c < 256"
  shows "(65536 * a + 256 * b + c) mod 256 = c"
proof -
  have "65536 * a + 256 * b + c = 256 * (256 * a + b) + c" by simp
  moreover have "(256 * (256 * a + b) + c) mod 256 = c mod 256" by (rule mod_mult_self4)
  ultimately have "(65536 * a + 256 * b + c) mod 256 = c mod 256" by (simp only:)
  then show ?thesis using assms by simp
qed


declare repack_from.simps [simp del]

lemma byte_bound: "unat (a :: byte) < 256"
proof -
  have "unat a < 2 ^ LENGTH(8)" by (rule unsigned_less)
  then show ?thesis by simp
qed

lemma byte1:
  fixes a b :: nat
  assumes "a < 256" "b < 256"
  shows "(a div 4 * 64 + (a mod 4 * 16 + b div 16)) div 16 mod 256 = a"
  unfolding regroup(1) using assms by (rule first_byte)

lemma byte2:
  fixes a b c :: nat
  assumes "b < 256" "c < 256"
  shows "((a div 4 * 64 + (a mod 4 * 16 + b div 16)) * 64 + (b mod 16 * 4 + c div 64)) div 4 mod 256 = b"
  unfolding regroup(1) regroup(2) using assms by (rule second_byte)

lemma byte3:
  fixes a b c :: nat
  assumes "c < 256"
  shows "(((a div 4 * 64 + (a mod 4 * 16 + b div 16)) * 64 + (b mod 16 * 4 + c div 64)) * 64 + c mod 64) mod 256 = c"
  unfolding regroup(1) regroup(2) regroup(3) using assms by (rule third_byte)

lemma byte1_last:
  fixes a :: nat
  assumes "a < 256"
  shows "(a div 4 * 64 + a mod 4 * 16) div 16 mod 256 = a"
  using byte1 [of a 0] assms by simp

lemma byte2_last:
  fixes a b :: nat
  assumes "b < 256"
  shows "((a div 4 * 64 + (a mod 4 * 16 + b div 16)) * 64 + b mod 16 * 4) div 4 mod 256 = b"
  using byte2 [of b 0 a] assms by simp

lemma sextets_bound: "\<forall>k \<in> set (sextets bs). k < 64"
proof (induction bs rule: sextets.induct)
  case (1 a b c rest)
  have "unat a < 256" "unat b < 256" "unat c < 256" by (rule byte_bound)+
  then have "unat a div 4 < 64" "unat a mod 4 * 16 + unat b div 16 < 64"
    "unat b mod 16 * 4 + unat c div 64 < 64" "unat c mod 64 < 64"
    by arith+
  then show ?case using 1 by simp
next
  case (2 a b)
  have "unat a < 256" "unat b < 256" by (rule byte_bound)+
  then have "unat a div 4 < 64" "unat a mod 4 * 16 + unat b div 16 < 64"
    "unat b mod 16 * 4 < 64"
    by arith+
  then show ?case by simp
next
  case (3 a)
  have "unat a < 256" by (rule byte_bound)
  then have "unat a div 4 < 64" "unat a mod 4 * 16 < 64"
    by arith+
  then show ?case by simp
next
  case 4
  then show ?case by simp
qed

lemma decode_groups_sextets: "decode_groups (sextets bs) = map unat bs"
proof (induction bs rule: sextets.induct)
  case (1 a b c rest)
  show ?case
    by (simp only: sextets.simps decode_groups.simps append_Cons append_Nil list.map
        byte1 [OF byte_bound byte_bound] byte2 [OF byte_bound byte_bound] byte3 [OF byte_bound] 1)
next
  case (2 a b)
  show ?case
    by (simp only: sextets.simps decode_groups.simps list.map
        byte1 [OF byte_bound byte_bound] byte2_last [OF byte_bound])
next
  case (3 a)
  show ?case
    by (simp only: sextets.simps decode_groups.simps list.map byte1_last [OF byte_bound])
next
  case 4
  show ?case by simp
qed


lemma index_of_nth: "distinct xs \<Longrightarrow> k < length xs \<Longrightarrow> index_of (xs ! k) xs = Some k"
proof (induction xs arbitrary: k)
  case Nil
  then show ?case by simp
next
  case (Cons x xs)
  show ?case
  proof (cases k)
    case 0
    then show ?thesis by simp
  next
    case (Suc j)
    then have "xs ! j \<in> set xs" "j < length xs" using Cons.prems by simp_all
    then have "xs ! j \<noteq> x" using Cons.prems by auto
    then show ?thesis using Suc Cons by simp
  qed
qed

lemma b64_index_char: "k < 64 \<Longrightarrow> b64_index (b64_char k) = Some k"
  unfolding b64_index_def b64_char_def
  by (rule index_of_nth) (simp_all add: b64_table_def)

lemma b64_char_in_table: "k < 64 \<Longrightarrow> b64_char k \<in> set b64_table"
  unfolding b64_char_def by (rule nth_mem) (simp add: b64_table_def)

lemma b64_char_not_pad: "k < 64 \<Longrightarrow> b64_char k \<noteq> CHR ''=''"
proof
  assume "k < 64" and "b64_char k = CHR ''=''"
  then have "CHR ''='' \<in> set b64_table" using b64_char_in_table by metis
  then show False by (simp add: b64_table_def)
qed

lemma b64_char_not_space: "k < 64 \<Longrightarrow> \<not> is_space (b64_char k)"
proof
  assume "k < 64" and sp: "is_space (b64_char k)"
  then have "b64_char k \<in> set b64_table" using b64_char_in_table by metis
  moreover have "\<forall>c \<in> set b64_table. \<not> is_space c" by (simp add: b64_table_def is_space_def)
  ultimately show False using sp by blast
qed

lemma strip_padding_encoded:
  assumes "CHR ''='' \<notin> set xs" and "k \<le> 2"
  shows "strip_padding (xs @ replicate k (CHR ''='')) = xs"
proof -
  consider "k = 0" | "k = 1" | "k = 2" using assms(2) by linarith
  then show ?thesis
  proof cases
    case 1
    show ?thesis
    proof (cases "rev xs")
      case Nil
      then show ?thesis using 1 by (simp add: strip_padding_def)
    next
      case (Cons c1 r)
      then have "c1 \<in> set xs" by (metis list.set_intros(1) set_rev)
      then have "c1 \<noteq> CHR ''=''" using assms(1) by auto
      then show ?thesis using 1 Cons by (cases r) (simp_all add: strip_padding_def)
    qed
  next
    case 2
    show ?thesis
    proof (cases "rev xs")
      case Nil
      then show ?thesis using 2 by (simp add: strip_padding_def)
    next
      case (Cons c2 r)
      then have "c2 \<in> set xs" by (metis list.set_intros(1) set_rev)
      then have c2: "c2 \<noteq> CHR ''=''" using assms(1) by auto
      have restored: "rev (c2 # r) = xs" using Cons by (metis rev_rev_ident)
      have "rev (xs @ replicate k (CHR ''='')) = CHR ''='' # c2 # r"
        using 2 Cons by simp
      then have "strip_padding (xs @ replicate k (CHR ''='')) = rev (c2 # r)"
        unfolding strip_padding_def using c2 by simp
      then show ?thesis using restored by (simp only:)
    qed
  next
    case 3
    then have "rev (xs @ replicate k (CHR ''='')) = CHR ''='' # CHR ''='' # rev xs"
      by (simp add: numeral_2_eq_2)
    then show ?thesis by (simp add: strip_padding_def)
  qed
qed

lemma length_sextets:
  "length (sextets bs) = 4 * (length bs div 3) + (if length bs mod 3 = 0 then 0 else length bs mod 3 + 1)"
  by (induction bs rule: sextets.induct) simp_all


lemma b64_roundtrip: "b64_decode (b64_encode bs) = Inr (map unat bs)"
proof -
  let ?body = "map b64_char (sextets bs)"
  let ?k = "(3 - length bs mod 3) mod 3"
  have small: "\<forall>k \<in> set (sextets bs). k < 64" by (rule sextets_bound)
  have no_pad: "CHR ''='' \<notin> set ?body"
  proof
    assume "CHR ''='' \<in> set ?body"
    then obtain k where "k \<in> set (sextets bs)" and "b64_char k = CHR ''=''" by auto
    then show False using small b64_char_not_pad by blast
  qed
  have "\<not> is_space (CHR ''='')" by (simp add: is_space_def)
  then have no_space: "filter (\<lambda>c. \<not> is_space c) (b64_encode bs) = b64_encode bs"
    using small b64_char_not_space by (auto simp add: b64_encode_def filter_id_conv)
  define r where "r = (if length bs mod 3 = 0 then 0 else length bs mod 3 + 1)"
  have residue: "length bs mod 3 = 0 \<or> length bs mod 3 = 1 \<or> length bs mod 3 = 2"
    by linarith
  then have tail: "r = 0 \<and> ?k = 0 \<or> r = 2 \<and> ?k = 2 \<or> r = 3 \<and> ?k = 1"
    unfolding r_def by (elim disjE) simp_all
  have body_len: "length ?body = 4 * (length bs div 3) + r"
    unfolding length_map length_sextets r_def by (rule refl)
  have "length (b64_encode bs) = 4 * (length bs div 3) + (r + ?k)"
    unfolding b64_encode_def length_append length_replicate body_len by simp
  then have "length (b64_encode bs) mod 4 = (r + ?k) mod 4"
    by (simp only: mod_mult_self4)
  then have len: "length (b64_encode bs) mod 4 = 0"
    using tail by (elim disjE) simp_all
  have "length ?body mod 4 = r mod 4"
    unfolding body_len by (rule mod_mult_self4)
  then have not_one: "length ?body mod 4 \<noteq> 1"
    using tail by (elim disjE) simp_all
  have "?k \<le> 2" by simp
  then have stripped: "strip_padding (b64_encode bs) = ?body"
    unfolding b64_encode_def using no_pad by (rule strip_padding_encoded [rotated])
  have valid: "\<not> (\<exists>c \<in> set ?body. b64_index c = None)"
    using small by (auto simp add: b64_index_char)
  have indices: "map (\<lambda>c. the (b64_index c)) ?body = sextets bs"
    using small by (induction "sextets bs") (auto simp add: b64_index_char map_idI)
  show ?thesis
    unfolding b64_decode_def no_space Let_def
    using len stripped not_one valid indices decode_groups_sextets [of bs]
    by simp
qed

lemma repack_from_eq:
  "i \<le> length bs \<Longrightarrow> length acc = length bs \<Longrightarrow>
   repack_from bs i acc = take i acc @ map of_nat (drop i bs)"
proof (induction bs i acc rule: repack_from.induct)
  case (1 bs i acc)
  show ?case
  proof (cases "i < length bs")
    case True
    then have "repack_from bs i acc = repack_from bs (i + 1) (acc[i := of_nat (bs ! i)])"
      by (simp add: repack_from.simps)
    also have "\<dots> = take (i + 1) (acc[i := of_nat (bs ! i)]) @ map of_nat (drop (i + 1) bs)"
      using 1 True by simp
    also have "\<dots> = take i acc @ map of_nat (drop i bs)"
      using True 1(3) by (simp add: take_Suc_conv_app_nth Cons_nth_drop_Suc [symmetric])
    finally show ?thesis .
  next
    case False
    then show ?thesis using 1 by (simp add: repack_from.simps)
  qed
qed

lemma repack_eq: "repack bs = map of_nat bs"
  unfolding repack_def by (simp add: repack_from_eq)

lemma repack_bytes: "repack (map unat bs) = bs"
  by (simp add: repack_eq map_idI)

subsection \<open>A successful upload, screen by screen\<close>

lemma tabs_upload_calls:
  "read_reply tenv = Inr base64 \<and> decode base64 = Inr bin \<and> t_upload_reply tenv = None \<longrightarrow>
      calls (snd (tabs_uploadEvidence decode tenv uri i (d, w)))
        = calls w @
          [ReadAsBase64 uri,
           Upload (''alert_'' @ i @ ''_'' @ show_nat (t_now tenv) @ ''.mp4'') (repack bin),
           Update i [(C_video_path, VText (''alert_'' @ i @ ''_'' @ show_nat (t_now tenv) @ ''.mp4'')),
                     (C_status, VText ''resolved'')]] \<and>
      sos_evidence (snd (tabs_uploadEvidence decode tenv uri i (d, w)))
        = sos_evidence w @ [(''alert_'' @ i @ ''_'' @ show_nat (t_now tenv) @ ''.mp4'', repack bin)] \<and>
      (t_update_reply tenv = None \<longrightarrow>
         (\<forall>r \<in> set (sos_alerts (snd (tabs_uploadEvidence decode tenv uri i (d, w)))).
            r C_id = Some (VText i) \<longrightarrow>
            r C_video_path = Some (VText (''alert_'' @ i @ ''_'' @ show_nat (t_now tenv) @ ''.mp4'')) \<and>
            r C_status = Some (VText ''resolved'')))"
  by (auto simp add: tabs_defs effect_defs Let_def alert_fileName_def
      elim!: db_update_sets split: option.splits)

lemma rev_upload_calls:
  "fetch_reply uenv = Inr blob \<and> upload_reply uenv = None \<longrightarrow>
      calls (snd (rev_uploadEvidence uenv uri i (d, w)))
        = calls w @
          [Fetch uri,
           Upload (''alert_'' @ i @ ''_'' @ show_nat (now uenv) @ ''.mp4'') blob,
           Update i [(C_video_path, VText (''alert_'' @ i @ ''_'' @ show_nat (now uenv) @ ''.mp4''))]] \<and>
      (update_reply uenv = None \<longrightarrow>
         (\<forall>r \<in> set (sos_alerts (snd (rev_uploadEvidence uenv uri i (d, w)))).
            r C_id = Some (VText i) \<longrightarrow>
            r C_video_path = Some (VText (''alert_'' @ i @ ''_'' @ show_nat (now uenv) @ ''.mp4''))))"
  by (auto simp add: rev_defs effect_defs Let_def alert_fileName_def
      elim!: db_update_sets split: option.splits)

lemma sos_upload_calls:
  "fetch_reply uenv = Inr blob \<and> upload_reply uenv = None \<longrightarrow>
      calls (snd (uploadEvidence uenv uri i (s, w)))
        = calls w @
          [Fetch uri,
           Upload (''sos_'' @ i @ ''_'' @ show_nat (now uenv) @ ''.''
                     @ rev (takeWhile (\<lambda>c. c \<noteq> CHR ''.'') (rev uri))) blob,
           Update i [(C_video_path, VText (''sos_'' @ i @ ''_'' @ show_nat (now uenv) @ ''.''
                                             @ rev (takeWhile (\<lambda>c. c \<noteq> CHR ''.'') (rev uri)))),
                     (C_status, VText ''resolved'')]] \<and>
      (update_reply uenv = None \<longrightarrow>
         (\<forall>r \<in> set (sos_alerts (snd (uploadEvidence uenv uri i (s, w)))).
            r C_id = Some (VText i) \<longrightarrow>
            r C_video_path = Some (VText (''sos_'' @ i @ ''_'' @ show_nat (now uenv) @ ''.''
                                            @ rev (takeWhile (\<lambda>c. c \<noteq> CHR ''.'') (rev uri)))) \<and>
            r C_status = Some (VText ''resolved'')))"
  by (auto simp add: sos_defs effect_defs Let_def sos_fileName_eq
      elim!: db_update_sets split: option.splits)

lemma pivot_upload_calls:
  "fetch_reply penv = Inr blob \<and> upload_reply penv = None \<longrightarrow>
      calls (snd (processAndUpload penv uri la lo (p, w)))
        = calls w @
          [Fetch uri,
           Upload (''demo_sos_'' @ show_nat (now penv) @ ''.mp4'') blob,
           Insert [(C_lat, VNum la), (C_lng, VNum lo),
                   (C_video_path, VText (''demo_sos_'' @ show_nat (now penv) @ ''.mp4'')),
                   (C_status, VText ''active'')]]"
  by (auto simp add: pivot_defs effect_defs Let_def demo_fileName_def split: sum.splits)

subsection \<open>What an update leaves alone\<close>

lemma store_update_frame:
  "c \<notin> fst ` set p \<Longrightarrow>
   map (\<lambda>r. r c) (sos_alerts (store_update reply i p w)) = map (\<lambda>r. r c) (sos_alerts w)"
  by (simp add: store_update_def Let_def do_call_def db_update_other split: option.splits)

lemma deactivate_frame:
  "c \<notin> {C_video_path, C_status} \<Longrightarrow>
   map (\<lambda>r. r c) (sos_alerts (snd (deactivateSOS denv (s, w)))) = map (\<lambda>r. r c) (sos_alerts w)"
  by (simp add: deactivateSOS_def Let_def store_update_frame do_call_def)

lemma upload_frame:
  "c \<notin> {C_video_path, C_status} \<Longrightarrow>
   map (\<lambda>r. r c) (sos_alerts (snd (uploadEvidence uenv uri i (s, w)))) = map (\<lambda>r. r c) (sos_alerts w)"
  by (simp add: uploadEvidence_def upload_catch_def Let_def store_update_frame do_call_def
      alert_dialog_def console_log_def split: sum.splits option.splits)

lemma recording_stopped_frame:
  "c \<notin> {C_video_path, C_status} \<Longrightarrow>
   map (\<lambda>r. r c) (sos_alerts (snd (recordingStopped uenv video (s, w)))) = map (\<lambda>r. r c) (sos_alerts w)"
  by (simp add: recordingStopped_def Let_def upload_frame split: option.splits)

lemma rev_upload_frame:
  "c \<noteq> C_video_path \<Longrightarrow>
   map (\<lambda>r. r c) (sos_alerts (snd (rev_uploadEvidence uenv uri i (d, w)))) = map (\<lambda>r. r c) (sos_alerts w)"
  by (simp add: rev_uploadEvidence_def rev_upload_catch_def Let_def store_update_frame do_call_def
      alert_dialog_def console_log_def split: sum.splits option.splits)

lemma tabs_upload_frame:
  "c \<notin> {C_video_path, C_status} \<Longrightarrow>
   map (\<lambda>r. r c) (sos_alerts (snd (tabs_uploadEvidence decode tenv uri i (d, w))))
     = map (\<lambda>r. r c) (sos_alerts w)"
  by (simp add: tabs_uploadEvidence_def tabs_upload_catch_def Let_def store_update_frame do_call_def
      alert_dialog_def console_log_def split: sum.splits option.splits)

subsection \<open>An active session tracks its alert\<close>

lemma activate_keeps_invariant:
  assumes "sosStatus s = Active \<longrightarrow> truthy (alertId s)" and "insert_reply env \<noteq> Inr []"
  shows "sosStatus (fst (activateSOS env (s, w))) = Active \<longrightarrow> truthy (alertId (fst (activateSOS env (s, w))))"
  using assms
  by (auto simp add: activateSOS_def activateSOS_of_def activate_after_insert_def activate_catch_def
      startTimer_def
      truthy_def Let_def split: sum.splits)

lemma upload_not_active: "sosStatus (fst (uploadEvidence env uri i (s, w))) \<noteq> Active"
  by (auto simp add: uploadEvidence_def upload_catch_def Let_def split: sum.splits option.splits)

lemma active_has_alert_id:
  "reachable sw \<Longrightarrow> sosStatus (fst sw) = Active \<longrightarrow> truthy (alertId (fst sw))"
proof (induction rule: reachable.induct)
  case (start w)
  then show ?case by (simp add: initial_session_def)
next
  case (activate sw env)
  then show ?case using activate_keeps_invariant [of "fst sw" env "snd sw"] by simp
next
  case (deactivate sw env)
  then show ?case
    by (auto simp add: deactivateSOS_def stopTimer_def Let_def)
next
  case (stopped sw env video)
  then show ?case
    using upload_not_active [of env "the video" _ "(fst sw)\<lparr>recordingFor := None\<rparr>" "snd sw"]
    by (auto simp add: recordingStopped_def Let_def split: option.splits)
next
  case (rejected sw)
  then show ?case by (auto simp add: recordingRejected_def Let_def split: option.splits)
next
  case (ticked s w)
  then show ?case by (simp add: tick_def)
next
  case (fired s w)
  then show ?case by (simp add: fire_timeout_def split: list.splits)
qed

lemma deactivate_with_alert_id:
  "(sosStatus s = Active \<and> alertId s = Some i \<and> i \<noteq> [] \<and> \<not> (d_cameraRef env \<and> isRecordingRef s) \<longrightarrow>
      calls (snd (deactivateSOS env (s, w))) = calls w @ [Update i [(C_status, VText ''resolved'')]] \<and>
      (d_update_reply env = None \<longrightarrow>
         sos_alerts (snd (deactivateSOS env (s, w)))
           = map (\<lambda>r. if r C_id = Some (VText i) then r(C_status \<mapsto> VText ''resolved'') else r)
               (sos_alerts w)) \<and>
      map (\<lambda>r. r C_video_path) (sos_alerts (snd (deactivateSOS env (s, w))))
        = map (\<lambda>r. r C_video_path) (sos_alerts w) \<and>
      sos_evidence (snd (deactivateSOS env (s, w))) = sos_evidence w \<and>
      sosStatus (fst (deactivateSOS env (s, w))) = Done \<and>
      timeouts (fst (deactivateSOS env (s, w))) = timeouts s @ [StatusToIdle] \<and>
      sosStatus (fire_timeout (fst (deactivateSOS env (s, w)))) = Idle) \<and>
   (sosStatus s \<noteq> Active \<longrightarrow> deactivateSOS env (s, w) = (s, w))"
  by (auto simp add: sos_defs effect_defs Let_def db_update_other fire_timeout_def db_update_def
      map_add_def fun_eq_iff split: option.splits list.splits)

section \<open>The claims\<close>

text \<open>
  C1. In the citizen SOS screen, in the live demo dashboard and in its earlier revision, a
  successful activation (the screen was idle, the location provider answered, the store
  accepted the insert) appends exactly one row, with the id the store gave it, status
  \<open>active\<close>, the coordinates of the location provider and no video path; nothing is uploaded
  and no update is issued during the activation; an activation that fails inserts nothing.
  In the pivot dashboard the activation never inserts: the one row is inserted by
  \<open>processAndUpload\<close>, after the upload and only when the upload succeeded, with the video path
  already set; when reading the file or the upload fails no insert is issued.
\<close>

theorem activation_inserts_one_active_row:
  "(sosStatus s = Idle \<and> location env = Inr (la, lo) \<and> insert_reply env = Inr nid \<longrightarrow>
      butlast (sos_alerts (snd (activateSOS env (s, w)))) = sos_alerts w \<and>
      last (sos_alerts (snd (activateSOS env (s, w)))) C_id = Some (VText nid) \<and>
      last (sos_alerts (snd (activateSOS env (s, w)))) C_status = Some (VText ''active'') \<and>
      last (sos_alerts (snd (activateSOS env (s, w)))) C_lat = Some (VNum la) \<and>
      last (sos_alerts (snd (activateSOS env (s, w)))) C_lng = Some (VNum lo) \<and>
      last (sos_alerts (snd (activateSOS env (s, w)))) C_video_path = None \<and>
      sos_evidence (snd (activateSOS env (s, w))) = sos_evidence w \<and>
      calls (snd (activateSOS env (s, w)))
        = calls w @ [GetCurrentPosition, Insert (sos_insert_payload (session_user env) la lo),
                     InvokePush nid la lo]
            @ (if cameraRef env \<and> perm_camera env \<and> perm_microphone env \<and> \<not> platform_web env
               then [RecordAsync] else [])) \<and>
   (\<not> isSOSActive d \<and> location env = Inr (la, lo) \<and> insert_reply env = Inr nid \<longrightarrow>
      butlast (sos_alerts (snd (tabs_startSOS env (d, w)))) = sos_alerts w \<and>
      last (sos_alerts (snd (tabs_startSOS env (d, w)))) C_id = Some (VText nid) \<and>
      last (sos_alerts (snd (tabs_startSOS env (d, w)))) C_status = Some (VText ''active'') \<and>
      last (sos_alerts (snd (tabs_startSOS env (d, w)))) C_lat = Some (VNum la) \<and>
      last (sos_alerts (snd (tabs_startSOS env (d, w)))) C_lng = Some (VNum lo) \<and>
      last (sos_alerts (snd (tabs_startSOS env (d, w)))) C_video_path = None \<and>
      sos_evidence (snd (tabs_startSOS env (d, w))) = sos_evidence w \<and>
      calls (snd (tabs_startSOS env (d, w)))
        = calls w @ [GetCurrentPosition,
                     Insert [(C_lat, VNum la), (C_lng, VNum lo), (C_status, VText ''active'')]]
            @ (if cameraRef env then [RecordAsync] else [])) \<and>
   (\<not> isSOSActive d \<and> location env = Inr (la, lo) \<and> insert_reply env = Inr nid \<longrightarrow>
      butlast (sos_alerts (snd (rev_startSOS env (d, w)))) = sos_alerts w \<and>
      last (sos_alerts (snd (rev_startSOS env (d, w)))) C_id = Some (VText nid) \<and>
      last (sos_alerts (snd (rev_startSOS env (d, w)))) C_status = Some (VText ''active'') \<and>
      last (sos_alerts (snd (rev_startSOS env (d, w)))) C_lat = Some (VNum la) \<and>
      last (sos_alerts (snd (rev_startSOS env (d, w)))) C_lng = Some (VNum lo) \<and>
      last (sos_alerts (snd (rev_startSOS env (d, w)))) C_video_path = None \<and>
      sos_evidence (snd (rev_startSOS env (d, w))) = sos_evidence w \<and>
      calls (snd (rev_startSOS env (d, w)))
        = calls w @ [GetCurrentPosition,
                     Insert [(C_lat, VNum la), (C_lng, VNum lo), (C_status, VText ''active'')]]
            @ (if cameraRef env then [RecordAsync] else [])) \<and>
   (\<not> isRecording p \<and> location env = Inr (la, lo) \<longrightarrow>
      sos_alerts (snd (handleSOS env (p, w))) = sos_alerts w \<and>
      calls (snd (handleSOS env (p, w)))
        = calls w @ [GetCurrentPosition] @ (if cameraRef env then [RecordAsync] else [])) \<and>
   (fetch_reply penv = Inr blob \<and> upload_reply penv = None \<and> p_insert_reply penv = Inr nid \<longrightarrow>
      butlast (sos_alerts (snd (processAndUpload penv uri la lo (p, w)))) = sos_alerts w \<and>
      last (sos_alerts (snd (processAndUpload penv uri la lo (p, w)))) C_status
         = Some (VText ''active'') \<and>
      last (sos_alerts (snd (processAndUpload penv uri la lo (p, w)))) C_lat = Some (VNum la) \<and>
      last (sos_alerts (snd (processAndUpload penv uri la lo (p, w)))) C_lng = Some (VNum lo) \<and>
      last (sos_alerts (snd (processAndUpload penv uri la lo (p, w)))) C_video_path
         = Some (VText (''demo_sos_'' @ show_nat (now penv) @ ''.mp4'')) \<and>
      calls (snd (processAndUpload penv uri la lo (p, w)))
        = calls w @ [Fetch uri, Upload (''demo_sos_'' @ show_nat (now penv) @ ''.mp4'') blob,
                     Insert [(C_lat, VNum la), (C_lng, VNum lo),
                             (C_video_path, VText (''demo_sos_'' @ show_nat (now penv) @ ''.mp4'')),
                             (C_status, VText ''active'')]]) \<and>
   (isl (location fenv) \<or> isl (insert_reply fenv) \<longrightarrow>
      sos_alerts (snd (activateSOS fenv (s, w))) = sos_alerts w \<and>
      sos_alerts (snd (tabs_startSOS fenv (d, w))) = sos_alerts w \<and>
      sos_alerts (snd (rev_startSOS fenv (d, w))) = sos_alerts w) \<and>
   sos_alerts (snd (handleSOS env (p, w))) = sos_alerts w \<and>
   (fetch_reply qenv = Inl e \<or> upload_reply qenv = Some e \<or> p_insert_reply qenv = Inl e \<longrightarrow>
      sos_alerts (snd (processAndUpload qenv uri la lo (p, w))) = sos_alerts w) \<and>
   (fetch_reply qenv = Inl e \<or> upload_reply qenv = Some e \<longrightarrow>
      calls (snd (processAndUpload qenv uri la lo (p, w)))
        = calls w @ (case fetch_reply qenv of
                       Inl x \<Rightarrow> [Fetch uri]
                     | Inr blob \<Rightarrow> [Fetch uri, Upload (''demo_sos_'' @ show_nat (now qenv) @ ''.mp4'') blob]))"
  using sos_activation [of s env la lo nid w] tabs_activation [of d env la lo nid w]
    rev_activation [of d env la lo nid w] pivot_activation [of p env la lo w penv blob nid uri]
    failed_activation [of fenv s w d] handleSOS_table [of env p w]
    pivot_failed_upload [of qenv e uri la lo p w]
  by blast

theorem activation_inserts_one_active_row_witness:
  "sosStatus scenario_session = Idle \<and> \<not> isSOSActive scenario_dashboard \<and>
   \<not> isRecording scenario_pivot \<and>
   location scenario_env = Inr (37.7749, -122.4194) \<and> insert_reply scenario_env = Inr ''a1'' \<and>
   fetch_reply scenario_process = Inr [1, 2, 3] \<and> upload_reply scenario_process = None \<and>
   p_insert_reply scenario_process = Inr ''a1'' \<and>
   map (\<lambda>r. (r C_id, r C_status, r C_lat, r C_lng, r C_video_path))
       (sos_alerts (snd (activateSOS scenario_env (scenario_session, scenario_world))))
     = [(Some (VText ''a1''), Some (VText ''active''), Some (VNum 37.7749),
         Some (VNum (-122.4194)), None)] \<and>
   calls (snd (activateSOS scenario_env (scenario_session, scenario_world)))
     = [GetCurrentPosition,
        Insert [(C_user_id, VText ''u1''), (C_lat, VNum 37.7749), (C_lng, VNum (-122.4194)),
                (C_status, VText ''active'')],
        InvokePush ''a1'' 37.7749 (-122.4194), RecordAsync] \<and>
   map (\<lambda>r. (r C_id, r C_status, r C_lat, r C_lng, r C_video_path))
       (sos_alerts (snd (tabs_startSOS scenario_env (scenario_dashboard, scenario_world))))
     = [(Some (VText ''a1''), Some (VText ''active''), Some (VNum 37.7749),
         Some (VNum (-122.4194)), None)] \<and>
   map (\<lambda>r. (r C_id, r C_status, r C_lat, r C_lng, r C_video_path))
       (sos_alerts (snd (rev_startSOS scenario_env (scenario_dashboard, scenario_world))))
     = [(Some (VText ''a1''), Some (VText ''active''), Some (VNum 37.7749),
         Some (VNum (-122.4194)), None)] \<and>
   sos_alerts (snd (handleSOS scenario_env (scenario_pivot, scenario_world))) = [] \<and>
   map (\<lambda>r. (r C_id, r C_status, r C_lat, r C_lng, r C_video_path))
       (sos_alerts (snd (processAndUpload scenario_process ''file:///clip.mp4'' 37.7749 (-122.4194)
          (scenario_pivot, scenario_world))))
     = [(Some (VText ''a1''), Some (VText ''active''), Some (VNum 37.7749),
         Some (VNum (-122.4194)), Some (VText ''demo_sos_1700000000000.mp4''))] \<and>
   location denied_env = Inl (JsError (Some ''Location permission denied'')) \<and>
   sos_alerts (snd (activateSOS denied_env (scenario_session, scenario_world))) = [] \<and>
   sosStatus (fst (activateSOS denied_env (scenario_session, scenario_world))) = Idle \<and>
   dialogs (snd (activateSOS denied_env (scenario_session, scenario_world)))
     = [(''SOS Error'', ''Location permission denied'')] \<and>
   sos_alerts (snd (tabs_startSOS denied_env (scenario_dashboard, scenario_world))) = [] \<and>
   sos_alerts (snd (rev_startSOS denied_env (scenario_dashboard, scenario_world))) = [] \<and>
   upload_reply failing_process = Some (JsError (Some ''bucket unavailable'')) \<and>
   sos_alerts (snd (processAndUpload failing_process ''file:///clip.mp4'' 37.7749 (-122.4194)
          (scenario_pivot, scenario_world))) = [] \<and>
   calls (snd (processAndUpload failing_process ''file:///clip.mp4'' 37.7749 (-122.4194)
          (scenario_pivot, scenario_world)))
     = [Fetch ''file:///clip.mp4'', Upload ''demo_sos_1700000000000.mp4'' [1, 2, 3]]"
  using activation_inserts_one_active_row
    [where s = scenario_session and env = scenario_env and la = "37.7749" and lo = "-122.4194"
       and nid = "''a1''" and w = scenario_world and d = scenario_dashboard and p = scenario_pivot
       and penv = scenario_process and blob = "[1, 2, 3]" and uri = "''file:///clip.mp4''"
       and fenv = denied_env and qenv = failing_process
       and e = "JsError (Some ''bucket unavailable'')"]
  by (simp add: sos_defs tabs_defs rev_defs pivot_defs effect_defs Let_def db_insert_def
      sos_insert_payload_def demo_fileName_def show_nat_scenario message_or_def)

theorem pivot_inserts_after_upload:
  "isRecording (fst (handleSOS scenario_env (scenario_pivot, scenario_world))) \<and>
   sos_alerts (snd (handleSOS scenario_env (scenario_pivot, scenario_world))) = [] \<and>
   calls (snd (processAndUpload scenario_process ''file:///clip.mp4'' 37.7749 (-122.4194)
            (handleSOS scenario_env (scenario_pivot, scenario_world))))
     = [GetCurrentPosition, RecordAsync, Fetch ''file:///clip.mp4'',
        Upload ''demo_sos_1700000000000.mp4'' [1, 2, 3],
        Insert [(C_lat, VNum 37.7749), (C_lng, VNum (-122.4194)),
                (C_video_path, VText ''demo_sos_1700000000000.mp4''), (C_status, VText ''active'')]] \<and>
   map (\<lambda>r. r C_video_path)
       (sos_alerts (snd (processAndUpload scenario_process ''file:///clip.mp4'' 37.7749 (-122.4194)
          (handleSOS scenario_env (scenario_pivot, scenario_world)))))
     = [Some (VText ''demo_sos_1700000000000.mp4'')]"
  by (simp add: pivot_defs effect_defs Let_def db_insert_def demo_fileName_def show_nat_scenario)




text \<open>
  C3. In the earlier revision of the dashboard, a stop whose recording uploads successfully
  leaves the alert row with its video path set but with status \<open>active\<close>: the update that
  \<open>uploadEvidence\<close> issues after the upload carries the video path only, so this
  \<open>uploadEvidence\<close> never changes the status of any row. (The upload does precede the
  update.)
\<close>

theorem rev_upload_leaves_status_active:
  "map (\<lambda>r. r C_status) (sos_alerts (snd (rev_uploadEvidence uenv uri i (d, w))))
     = map (\<lambda>r. r C_status) (sos_alerts w) \<and>
   map (\<lambda>r. (r C_id, r C_video_path, r C_status))
       (sos_alerts (snd (rev_uploadEvidence scenario_upload ''file:///clip.mp4'' ''a1''
          (rev_stopSOS True (rev_startSOS scenario_env (scenario_dashboard, scenario_world))))))
     = [(Some (VText ''a1''), Some (VText ''alert_a1_1700000000000.mp4''), Some (VText ''active''))] \<and>
   calls (snd (rev_uploadEvidence scenario_upload ''file:///clip.mp4'' ''a1''
            (rev_stopSOS True (rev_startSOS scenario_env (scenario_dashboard, scenario_world)))))
     = [GetCurrentPosition,
        Insert [(C_lat, VNum 37.7749), (C_lng, VNum (-122.4194)), (C_status, VText ''active'')],
        RecordAsync, StopRecording, Fetch ''file:///clip.mp4'',
        Upload ''alert_a1_1700000000000.mp4'' [1, 2, 3],
        Update ''a1'' [(C_video_path, VText ''alert_a1_1700000000000.mp4'')]]"
  by (simp add: rev_upload_frame)
    (simp add: rev_defs rev_stopSOS_def effect_defs Let_def db_insert_def db_update_def
      alert_fileName_def show_nat_scenario)

text \<open>
  C4. The citizen screen decides that no capture is running by its own flag
  \<open>isRecordingRef\<close>, which \<open>activateSOS\<close> sets and only \<open>deactivateSOS\<close> clears. When the
  recording has ended by itself (\<open>recordAsync\<close> rejected, or resolved without a uri) the flag
  is still set although nothing is being captured: \<open>deactivateSOS\<close> then only calls
  \<open>stopRecording\<close>, issues no update, and leaves the status at \<open>uploading\<close> with nothing
  scheduled and no callback pending. From there every handler and callback leaves the
  session as it is, and the alert row stays \<open>active\<close>.
\<close>

theorem deactivate_after_recording_error_is_stuck:
  "reachable recording_failed \<and>
   sosStatus (fst recording_failed) = Active \<and>
   alertId (fst recording_failed) = Some ''a1'' \<and>
   recordingFor (fst recording_failed) = None \<and>
   isRecordingRef (fst recording_failed) \<and>
   calls (snd stuck_uploading) = calls (snd recording_failed) @ [StopRecording] \<and>
   sosStatus (fst stuck_uploading) = Uploading \<and>
   timeouts (fst stuck_uploading) = [] \<and>
   recordingFor (fst stuck_uploading) = None \<and>
   map (\<lambda>r. (r C_id, r C_status, r C_video_path)) (sos_alerts (snd stuck_uploading))
     = [(Some (VText ''a1''), Some (VText ''active''), None)] \<and>
   activateSOS env stuck_uploading = stuck_uploading \<and>
   deactivateSOS denv stuck_uploading = stuck_uploading \<and>
   recordingStopped uenv video stuck_uploading = stuck_uploading \<and>
   recordingRejected stuck_uploading = stuck_uploading \<and>
   tick (fst stuck_uploading) = fst stuck_uploading \<and>
   fire_timeout (fst stuck_uploading) = fst stuck_uploading \<and>
   sosStatus (fst (deactivateSOS with_camera (recordingStopped scenario_upload None scenario_active)))
     = Uploading \<and>
   recordingFor (fst (deactivateSOS with_camera (recordingStopped scenario_upload None scenario_active)))
     = None \<and>
   timeouts (fst (deactivateSOS with_camera (recordingStopped scenario_upload None scenario_active)))
     = [] \<and>
   map (\<lambda>r. (r C_id, r C_status, r C_video_path))
       (sos_alerts (snd (deactivateSOS with_camera
          (recordingStopped scenario_upload None scenario_active))))
     = [(Some (VText ''a1''), Some (VText ''active''), None)]"
proof -
  have "insert_reply scenario_env \<noteq> Inr []" by simp
  then have "reachable (activateSOS scenario_env (initial_session, scenario_world))"
    using reachable.start by (rule reachable.activate [rotated])
  then have "reachable (recordingRejected (activateSOS scenario_env (initial_session, scenario_world)))"
    by (rule reachable.rejected)
  then have r: "reachable recording_failed"
    by (simp add: initial_session_def)
  show ?thesis
    using r
    by (simp add: sos_defs recordingRejected_def effect_defs Let_def db_insert_def
        sos_insert_payload_def tick_def fire_timeout_def)
qed

text \<open>
  C5. When the evidence upload of the citizen screen fails (reading the file throws, or
  the object store returns an error), \<open>uploadEvidence\<close> issues no update and leaves the
  table and the bucket as they were (so the alert keeps status \<open>active\<close> and no video
  path), shows the dialog \<open>Upload Failed\<close> with the error's message, schedules nothing and
  sets the status to \<open>idle\<close>.
\<close>

theorem upload_failure_leaves_alert_untouched:
  "fetch_reply env = Inl e \<or> (\<exists>blob. fetch_reply env = Inr blob \<and> upload_reply env = Some e) \<longrightarrow>
     sos_alerts (snd (uploadEvidence env uri i (s, w))) = sos_alerts w \<and>
     sos_evidence (snd (uploadEvidence env uri i (s, w))) = sos_evidence w \<and>
     calls (snd (uploadEvidence env uri i (s, w)))
       = calls w @ (case fetch_reply env of
                      Inl x \<Rightarrow> [Fetch uri]
                    | Inr blob \<Rightarrow> [Fetch uri, Upload (sos_fileName uri i (now env)) blob]) \<and>
     dialogs (snd (uploadEvidence env uri i (s, w)))
       = dialogs w @ [(''Upload Failed'', message_or e ''Evidence upload failed.'')] \<and>
     sosStatus (fst (uploadEvidence env uri i (s, w))) = Idle \<and>
     timeouts (fst (uploadEvidence env uri i (s, w))) = timeouts s"
  by (auto simp add: sos_defs effect_defs Let_def split: sum.splits)

theorem upload_failure_leaves_alert_untouched_witness:
  "fetch_reply failing_upload = Inr [1, 2, 3] \<and>
   upload_reply failing_upload = Some (JsError (Some ''bucket unavailable'')) \<and>
   map (\<lambda>r. (r C_id, r C_status, r C_video_path))
       (sos_alerts (snd (uploadEvidence failing_upload ''file:///clip.mp4'' ''a1''
          (deactivateSOS with_camera scenario_active))))
     = [(Some (VText ''a1''), Some (VText ''active''), None)] \<and>
   sos_evidence (snd (uploadEvidence failing_upload ''file:///clip.mp4'' ''a1''
          (deactivateSOS with_camera scenario_active))) = [] \<and>
   dialogs (snd (uploadEvidence failing_upload ''file:///clip.mp4'' ''a1''
          (deactivateSOS with_camera scenario_active)))
     = [(''Upload Failed'', ''bucket unavailable'')] \<and>
   sosStatus (fst (deactivateSOS with_camera scenario_active)) = Uploading \<and>
   sosStatus (fst (uploadEvidence failing_upload ''file:///clip.mp4'' ''a1''
          (deactivateSOS with_camera scenario_active))) = Idle"
  using upload_failure_leaves_alert_untouched
    [of failing_upload "JsError (Some ''bucket unavailable'')" "''file:///clip.mp4''" "''a1''"
        "fst (deactivateSOS with_camera scenario_active)"
        "snd (deactivateSOS with_camera scenario_active)"]
  by (simp add: sos_defs effect_defs Let_def db_insert_def sos_insert_payload_def message_or_def)

text \<open>
  C6. A failed push-notification call is absorbed by \<open>activateSOS\<close>: the run in which the
  call fails and the run in which it succeeds end in the same session, the same table, the
  same bucket, the same calls and the same dialogs (they differ in the console only). In
  particular a successful activation still ends in state \<open>active\<close>, with the inserted row
  as the store made it and no dialog shown.
\<close>

theorem push_failure_is_absorbed:
  "fst (activateSOS (env\<lparr>push_reply := Some e\<rparr>) sw)
     = fst (activateSOS (env\<lparr>push_reply := None\<rparr>) sw) \<and>
   sos_alerts (snd (activateSOS (env\<lparr>push_reply := Some e\<rparr>) sw))
     = sos_alerts (snd (activateSOS (env\<lparr>push_reply := None\<rparr>) sw)) \<and>
   sos_evidence (snd (activateSOS (env\<lparr>push_reply := Some e\<rparr>) sw))
     = sos_evidence (snd (activateSOS (env\<lparr>push_reply := None\<rparr>) sw)) \<and>
   calls (snd (activateSOS (env\<lparr>push_reply := Some e\<rparr>) sw))
     = calls (snd (activateSOS (env\<lparr>push_reply := None\<rparr>) sw)) \<and>
   dialogs (snd (activateSOS (env\<lparr>push_reply := Some e\<rparr>) sw))
     = dialogs (snd (activateSOS (env\<lparr>push_reply := None\<rparr>) sw)) \<and>
   (sosStatus (fst sw) = Idle \<and> location env = Inr (la, lo) \<and> insert_reply env = Inr nid \<longrightarrow>
      sosStatus (fst (activateSOS (env\<lparr>push_reply := Some e\<rparr>) sw)) = Active \<and>
      dialogs (snd (activateSOS (env\<lparr>push_reply := Some e\<rparr>) sw)) = dialogs (snd sw) \<and>
      sos_alerts (snd (activateSOS (env\<lparr>push_reply := Some e\<rparr>) sw))
        = db_insert nid (created_at env) (sos_insert_payload (session_user env) la lo)
            (sos_alerts (snd sw)))"
  by (auto simp add: sos_defs effect_defs Let_def split: sum.splits prod.splits)

theorem push_failure_is_absorbed_witness:
  "sosStatus (fst (scenario_session, scenario_world)) = Idle \<and>
   location scenario_env = Inr (37.7749, -122.4194) \<and> insert_reply scenario_env = Inr ''a1'' \<and>
   fst (activateSOS (scenario_env\<lparr>push_reply := Some (JsError None)\<rparr>)
          (scenario_session, scenario_world))
     = fst (activateSOS (scenario_env\<lparr>push_reply := None\<rparr>) (scenario_session, scenario_world)) \<and>
   sosStatus (fst (activateSOS (scenario_env\<lparr>push_reply := Some (JsError None)\<rparr>)
                     (scenario_session, scenario_world))) = Active \<and>
   dialogs (snd (activateSOS (scenario_env\<lparr>push_reply := Some (JsError None)\<rparr>)
                   (scenario_session, scenario_world))) = [] \<and>
   console (snd (activateSOS (scenario_env\<lparr>push_reply := Some (JsError None)\<rparr>)
                   (scenario_session, scenario_world)))
     = [''Push notification failed (Edge Function may not be deployed):''] \<and>
   map (\<lambda>r. (r C_id, r C_status, r C_lat, r C_lng, r C_video_path))
       (sos_alerts (snd (activateSOS (scenario_env\<lparr>push_reply := Some (JsError None)\<rparr>)
                           (scenario_session, scenario_world))))
     = [(Some (VText ''a1''), Some (VText ''active''), Some (VNum 37.7749),
         Some (VNum (-122.4194)), None)]"
  using push_failure_is_absorbed
    [where env = scenario_env and e = "JsError None" and sw = "(scenario_session, scenario_world)"
       and la = "37.7749" and lo = "-122.4194" and nid = "''a1''"]
  by (simp add: sos_defs effect_defs Let_def db_insert_def sos_insert_payload_def)

text \<open>
  C7. After a successful upload the name handed to the object store is the name written
  to the row's video path, and the name is made from the time of the upload: in the live
  demo dashboard and its earlier revision it is \<open>alert_<id>_<timestamp>.mp4\<close>; in the
  citizen screen it is \<open>sos_<id>_<timestamp>.<ext>\<close>, where \<open><ext>\<close> is the text after the
  last dot of the recording's uri (the whole uri when it has no dot); in the pivot
  dashboard it is \<open>demo_sos_<timestamp>.mp4\<close>, written by the insert.
\<close>

theorem evidence_name_per_screen:
  "(read_reply tenv = Inr encoded \<and> decode encoded = Inr bin \<and> t_upload_reply tenv = None \<longrightarrow>
      calls (snd (tabs_uploadEvidence decode tenv uri i (d, w)))
        = calls w @
          [ReadAsBase64 uri,
           Upload (''alert_'' @ i @ ''_'' @ show_nat (t_now tenv) @ ''.mp4'') (repack bin),
           Update i [(C_video_path, VText (''alert_'' @ i @ ''_'' @ show_nat (t_now tenv) @ ''.mp4'')),
                     (C_status, VText ''resolved'')]] \<and>
      (t_update_reply tenv = None \<longrightarrow>
         (\<forall>r \<in> set (sos_alerts (snd (tabs_uploadEvidence decode tenv uri i (d, w)))).
            r C_id = Some (VText i) \<longrightarrow>
            r C_video_path = Some (VText (''alert_'' @ i @ ''_'' @ show_nat (t_now tenv) @ ''.mp4''))))) \<and>
   (fetch_reply uenv = Inr blob \<and> upload_reply uenv = None \<longrightarrow>
      calls (snd (rev_uploadEvidence uenv uri i (d, w)))
        = calls w @
          [Fetch uri,
           Upload (''alert_'' @ i @ ''_'' @ show_nat (now uenv) @ ''.mp4'') blob,
           Update i [(C_video_path, VText (''alert_'' @ i @ ''_'' @ show_nat (now uenv) @ ''.mp4''))]] \<and>
      (update_reply uenv = None \<longrightarrow>
         (\<forall>r \<in> set (sos_alerts (snd (rev_uploadEvidence uenv uri i (d, w)))).
            r C_id = Some (VText i) \<longrightarrow>
            r C_video_path = Some (VText (''alert_'' @ i @ ''_'' @ show_nat (now uenv) @ ''.mp4''))))) \<and>
   (fetch_reply uenv = Inr blob \<and> upload_reply uenv = None \<longrightarrow>
      calls (snd (uploadEvidence uenv uri i (s, w)))
        = calls w @
          [Fetch uri,
           Upload (''sos_'' @ i @ ''_'' @ show_nat (now uenv) @ ''.''
                     @ rev (takeWhile (\<lambda>c. c \<noteq> CHR ''.'') (rev uri))) blob,
           Update i [(C_video_path, VText (''sos_'' @ i @ ''_'' @ show_nat (now uenv) @ ''.''
                                             @ rev (takeWhile (\<lambda>c. c \<noteq> CHR ''.'') (rev uri)))),
                     (C_status, VText ''resolved'')]] \<and>
      (update_reply uenv = None \<longrightarrow>
         (\<forall>r \<in> set (sos_alerts (snd (uploadEvidence uenv uri i (s, w)))).
            r C_id = Some (VText i) \<longrightarrow>
            r C_video_path = Some (VText (''sos_'' @ i @ ''_'' @ show_nat (now uenv) @ ''.''
                                            @ rev (takeWhile (\<lambda>c. c \<noteq> CHR ''.'') (rev uri))))))) \<and>
   (fetch_reply penv = Inr blob \<and> upload_reply penv = None \<longrightarrow>
      calls (snd (processAndUpload penv uri la lo (p, w)))
        = calls w @
          [Fetch uri,
           Upload (''demo_sos_'' @ show_nat (now penv) @ ''.mp4'') blob,
           Insert [(C_lat, VNum la), (C_lng, VNum lo),
                   (C_video_path, VText (''demo_sos_'' @ show_nat (now penv) @ ''.mp4'')),
                   (C_status, VText ''active'')]])"
  using tabs_upload_calls [of tenv encoded decode bin uri i d w]
    rev_upload_calls [of uenv blob uri i d w] sos_upload_calls [of uenv blob uri i s w]
    pivot_upload_calls [of penv blob uri la lo p w]
  by blast

theorem evidence_name_per_screen_witness:
  "read_reply scenario_tabs_upload = Inr ''AQID'' \<and> b64_decode ''AQID'' = Inr [1, 2, 3] \<and>
   t_upload_reply scenario_tabs_upload = None \<and> t_update_reply scenario_tabs_upload = None \<and>
   fetch_reply scenario_upload = Inr [1, 2, 3] \<and> upload_reply scenario_upload = None \<and>
   update_reply scenario_upload = None \<and>
   fetch_reply scenario_process = Inr [1, 2, 3] \<and> upload_reply scenario_process = None \<and>
   calls (snd (tabs_uploadEvidence b64_decode scenario_tabs_upload ''file:///clip.mp4'' ''a1''
            (scenario_dashboard, scenario_world)))
     = [ReadAsBase64 ''file:///clip.mp4'', Upload ''alert_a1_1700000000000.mp4'' [1, 2, 3],
        Update ''a1'' [(C_video_path, VText ''alert_a1_1700000000000.mp4''),
                       (C_status, VText ''resolved'')]] \<and>
   map (\<lambda>r. (r C_id, r C_video_path))
       (sos_alerts (snd (tabs_uploadEvidence b64_decode scenario_tabs_upload ''file:///clip.mp4'' ''a1''
          (tabs_startSOS scenario_env (scenario_dashboard, scenario_world)))))
     = [(Some (VText ''a1''), Some (VText ''alert_a1_1700000000000.mp4''))] \<and>
   calls (snd (rev_uploadEvidence scenario_upload ''file:///clip.mp4'' ''a1''
            (scenario_dashboard, scenario_world)))
     = [Fetch ''file:///clip.mp4'', Upload ''alert_a1_1700000000000.mp4'' [1, 2, 3],
        Update ''a1'' [(C_video_path, VText ''alert_a1_1700000000000.mp4'')]] \<and>
   calls (snd (uploadEvidence scenario_upload ''file:///clip.mp4'' ''a1''
            (scenario_session, scenario_world)))
     = [Fetch ''file:///clip.mp4'', Upload ''sos_a1_1700000000000.mp4'' [1, 2, 3],
        Update ''a1'' [(C_video_path, VText ''sos_a1_1700000000000.mp4''),
                       (C_status, VText ''resolved'')]] \<and>
   map (\<lambda>r. (r C_id, r C_video_path))
       (sos_alerts (snd (uploadEvidence scenario_upload ''file:///clip.mp4'' ''a1'' scenario_active)))
     = [(Some (VText ''a1''), Some (VText ''sos_a1_1700000000000.mp4''))] \<and>
   calls (snd (processAndUpload scenario_process ''file:///clip.mp4'' 37.7749 (-122.4194)
            (scenario_pivot, scenario_world)))
     = [Fetch ''file:///clip.mp4'', Upload ''demo_sos_1700000000000.mp4'' [1, 2, 3],
        Insert [(C_lat, VNum 37.7749), (C_lng, VNum (-122.4194)),
                (C_video_path, VText ''demo_sos_1700000000000.mp4''), (C_status, VText ''active'')]]"
  using evidence_name_per_screen
    [where tenv = scenario_tabs_upload and encoded = "''AQID''" and decode = b64_decode
       and bin = "[1, 2, 3]" and uri = "''file:///clip.mp4''" and i = "''a1''"
       and d = scenario_dashboard and w = scenario_world and uenv = scenario_upload
       and blob = "[1, 2, 3]" and s = scenario_session and penv = scenario_process
       and la = "37.7749" and lo = "-122.4194" and p = scenario_pivot]
  by (simp add: sos_defs tabs_defs rev_defs pivot_defs effect_defs Let_def db_insert_def
      db_update_def sos_insert_payload_def alert_fileName_def demo_fileName_def sos_fileName_def
      pop_def show_nat_scenario b64_decode_def b64_index_def b64_table_def is_space_def
      strip_padding_def repack_eq)

theorem sos_evidence_name_differs:
  "calls (snd (uploadEvidence scenario_upload ''file:///clip.mp4'' ''a1''
            (scenario_session, scenario_world)))
     = [Fetch ''file:///clip.mp4'', Upload ''sos_a1_1700000000000.mp4'' [1, 2, 3],
        Update ''a1'' [(C_video_path, VText ''sos_a1_1700000000000.mp4''),
                       (C_status, VText ''resolved'')]] \<and>
   ''sos_a1_1700000000000.mp4'' \<noteq> ''alert_a1_1700000000000.mp4'' \<and>
   calls (snd (uploadEvidence scenario_upload ''file:///clip.mov'' ''a1''
            (scenario_session, scenario_world)))
     = [Fetch ''file:///clip.mov'', Upload ''sos_a1_1700000000000.mov'' [1, 2, 3],
        Update ''a1'' [(C_video_path, VText ''sos_a1_1700000000000.mov''),
                       (C_status, VText ''resolved'')]]"
  by (simp add: sos_defs effect_defs Let_def sos_fileName_def pop_def show_nat_scenario)

text \<open>
  C8. The coordinates of a row are written by the insert and by nothing else. Every update
  the screens issue (\<open>deactivateSOS\<close> and \<open>uploadEvidence\<close> of the citizen screen, the
  continuation run when the recording stops, \<open>uploadEvidence\<close> of the live demo dashboard
  and of its earlier revision) carries a payload whose columns are among \<open>video_path\<close>
  and \<open>status\<close>, and leaves every other column of every row as it was; \<open>activateSOS\<close>
  issues no update and leaves the rows it found as they were.
\<close>

theorem updates_touch_only_path_and_status:
  "(c \<notin> {C_video_path, C_status} \<longrightarrow>
      map (\<lambda>r. r c) (sos_alerts (snd (deactivateSOS denv (s, w)))) = map (\<lambda>r. r c) (sos_alerts w) \<and>
      map (\<lambda>r. r c) (sos_alerts (snd (uploadEvidence uenv uri i (s, w))))
        = map (\<lambda>r. r c) (sos_alerts w) \<and>
      map (\<lambda>r. r c) (sos_alerts (snd (recordingStopped uenv video (s, w))))
        = map (\<lambda>r. r c) (sos_alerts w) \<and>
      map (\<lambda>r. r c) (sos_alerts (snd (rev_uploadEvidence uenv uri i (d, w))))
        = map (\<lambda>r. r c) (sos_alerts w) \<and>
      map (\<lambda>r. r c) (sos_alerts (snd (tabs_uploadEvidence decode tenv uri i (d, w))))
        = map (\<lambda>r. r c) (sos_alerts w)) \<and>
   take (length (sos_alerts w)) (sos_alerts (snd (activateSOS aenv (s, w)))) = sos_alerts w \<and>
   (Update j p \<in> set (calls (snd (deactivateSOS denv (s, w)))) \<longrightarrow>
      Update j p \<in> set (calls w) \<or> fst ` set p \<subseteq> {C_video_path, C_status}) \<and>
   (Update j p \<in> set (calls (snd (uploadEvidence uenv uri i (s, w)))) \<longrightarrow>
      Update j p \<in> set (calls w) \<or> fst ` set p \<subseteq> {C_video_path, C_status}) \<and>
   (Update j p \<in> set (calls (snd (recordingStopped uenv video (s, w)))) \<longrightarrow>
      Update j p \<in> set (calls w) \<or> fst ` set p \<subseteq> {C_video_path, C_status}) \<and>
   (Update j p \<in> set (calls (snd (rev_uploadEvidence uenv uri i (d, w)))) \<longrightarrow>
      Update j p \<in> set (calls w) \<or> fst ` set p \<subseteq> {C_video_path, C_status}) \<and>
   (Update j p \<in> set (calls (snd (tabs_uploadEvidence decode tenv uri i (d, w)))) \<longrightarrow>
      Update j p \<in> set (calls w) \<or> fst ` set p \<subseteq> {C_video_path, C_status}) \<and>
   (Update j p \<in> set (calls (snd (activateSOS aenv (s, w)))) \<longrightarrow> Update j p \<in> set (calls w))"
proof (intro conjI)
  show "c \<notin> {C_video_path, C_status} \<longrightarrow>
      map (\<lambda>r. r c) (sos_alerts (snd (deactivateSOS denv (s, w)))) = map (\<lambda>r. r c) (sos_alerts w) \<and>
      map (\<lambda>r. r c) (sos_alerts (snd (uploadEvidence uenv uri i (s, w))))
        = map (\<lambda>r. r c) (sos_alerts w) \<and>
      map (\<lambda>r. r c) (sos_alerts (snd (recordingStopped uenv video (s, w))))
        = map (\<lambda>r. r c) (sos_alerts w) \<and>
      map (\<lambda>r. r c) (sos_alerts (snd (rev_uploadEvidence uenv uri i (d, w))))
        = map (\<lambda>r. r c) (sos_alerts w) \<and>
      map (\<lambda>r. r c) (sos_alerts (snd (tabs_uploadEvidence decode tenv uri i (d, w))))
        = map (\<lambda>r. r c) (sos_alerts w)"
    using deactivate_frame [of c denv s w] upload_frame [of c uenv uri i s w]
      recording_stopped_frame [of c uenv video s w] rev_upload_frame [of c uenv uri i d w]
      tabs_upload_frame [of c decode tenv uri i d w]
    by blast
  show "take (length (sos_alerts w)) (sos_alerts (snd (activateSOS aenv (s, w)))) = sos_alerts w"
    by (auto simp add: sos_defs effect_defs Let_def db_insert_def split: sum.splits option.splits)
  show "Update j p \<in> set (calls (snd (deactivateSOS denv (s, w)))) \<longrightarrow>
      Update j p \<in> set (calls w) \<or> fst ` set p \<subseteq> {C_video_path, C_status}"
    by (auto simp add: sos_defs effect_defs Let_def split: option.splits)
  show "Update j p \<in> set (calls (snd (uploadEvidence uenv uri i (s, w)))) \<longrightarrow>
      Update j p \<in> set (calls w) \<or> fst ` set p \<subseteq> {C_video_path, C_status}"
    by (auto simp add: sos_defs effect_defs Let_def split: sum.splits option.splits)
  show "Update j p \<in> set (calls (snd (recordingStopped uenv video (s, w)))) \<longrightarrow>
      Update j p \<in> set (calls w) \<or> fst ` set p \<subseteq> {C_video_path, C_status}"
    by (auto simp add: sos_defs effect_defs Let_def split: sum.splits option.splits)
  show "Update j p \<in> set (calls (snd (rev_uploadEvidence uenv uri i (d, w)))) \<longrightarrow>
      Update j p \<in> set (calls w) \<or> fst ` set p \<subseteq> {C_video_path, C_status}"
    by (auto simp add: rev_defs effect_defs Let_def split: sum.splits option.splits)
  show "Update j p \<in> set (calls (snd (tabs_uploadEvidence decode tenv uri i (d, w)))) \<longrightarrow>
      Update j p \<in> set (calls w) \<or> fst ` set p \<subseteq> {C_video_path, C_status}"
    by (auto simp add: tabs_defs effect_defs Let_def split: sum.splits option.splits)
  show "Update j p \<in> set (calls (snd (activateSOS aenv (s, w)))) \<longrightarrow> Update j p \<in> set (calls w)"
    by (auto simp add: sos_defs effect_defs Let_def split: sum.splits option.splits)
qed

theorem updates_touch_only_path_and_status_witness:
  "C_lat \<notin> {C_video_path, C_status} \<and>
   map (\<lambda>r. r C_lat) (sos_alerts (snd (deactivateSOS no_camera web_active))) = [Some (VNum 37.7749)] \<and>
   map (\<lambda>r. r C_lat) (sos_alerts (snd web_active)) = [Some (VNum 37.7749)] \<and>
   map (\<lambda>r. r C_lat)
       (sos_alerts (snd (uploadEvidence scenario_upload ''file:///clip.mp4'' ''a1'' web_active)))
     = [Some (VNum 37.7749)] \<and>
   map (\<lambda>r. r C_lat)
       (sos_alerts (snd (rev_uploadEvidence scenario_upload ''file:///clip.mp4'' ''a1''
          (scenario_dashboard, snd web_active))))
     = [Some (VNum 37.7749)] \<and>
   map (\<lambda>r. r C_lat)
       (sos_alerts (snd (tabs_uploadEvidence b64_decode scenario_tabs_upload ''file:///clip.mp4'' ''a1''
          (scenario_dashboard, snd web_active))))
     = [Some (VNum 37.7749)] \<and>
   Update ''a1'' [(C_status, VText ''resolved'')]
     \<in> set (calls (snd (deactivateSOS no_camera web_active))) \<and>
   Update ''a1'' [(C_status, VText ''resolved'')] \<notin> set (calls (snd web_active)) \<and>
   fst ` set [(C_status, VText ''resolved'')] \<subseteq> {C_video_path, C_status}"
  using updates_touch_only_path_and_status
    [where c = C_lat and denv = no_camera and s = "fst web_active" and w = "snd web_active"
       and uenv = scenario_upload and uri = "''file:///clip.mp4''" and i = "''a1''"
       and d = scenario_dashboard and decode = b64_decode and tenv = scenario_tabs_upload
       and j = "''a1''" and p = "[(C_status, VText ''resolved'')]" and video = "Some ''file:///clip.mp4''"
       and aenv = scenario_env]
  by (simp add: sos_defs tabs_defs rev_defs effect_defs Let_def db_insert_def
      db_update_def sos_insert_payload_def alert_fileName_def sos_fileName_def
      pop_def show_nat_scenario b64_decode_def b64_index_def b64_table_def is_space_def
      strip_padding_def repack_eq)

text \<open>
  C9. The citizen screen does not clear the session on every ending. The \<open>catch\<close> blocks
  of \<open>uploadEvidence\<close> and \<open>activateSOS\<close> and the callback scheduled by \<open>deactivateSOS\<close> leave the
  alert id and the elapsed seconds as they are. So after a failed upload the status is idle
  and nothing is scheduled, yet the alert id of the ended flow and its elapsed seconds are
  still there; the same holds after a stop without a recording, once the scheduled callback
  has run. Only the ending after a successful upload clears them.
\<close>

theorem session_fields_survive_failed_upload:
  "alertId (fst (upload_catch e (s, w))) = alertId s \<and>
   elapsedSeconds (fst (upload_catch e (s, w))) = elapsedSeconds s \<and>
   alertId (fst (activate_catch e (s, w))) = alertId s \<and>
   elapsedSeconds (fst (activate_catch e (s, w))) = elapsedSeconds s \<and>
   alertId (run_timeout StatusToIdle s) = alertId s \<and>
   elapsedSeconds (run_timeout StatusToIdle s) = elapsedSeconds s \<and>
   sosStatus (fst (recordingStopped failing_upload (Some ''file:///clip.mp4'')
      (deactivateSOS with_camera (tick (fst scenario_active), snd scenario_active)))) = Idle \<and>
   timeouts (fst (recordingStopped failing_upload (Some ''file:///clip.mp4'')
      (deactivateSOS with_camera (tick (fst scenario_active), snd scenario_active)))) = [] \<and>
   alertId (fst (recordingStopped failing_upload (Some ''file:///clip.mp4'')
      (deactivateSOS with_camera (tick (fst scenario_active), snd scenario_active)))) = Some ''a1'' \<and>
   elapsedSeconds (fst (recordingStopped failing_upload (Some ''file:///clip.mp4'')
      (deactivateSOS with_camera (tick (fst scenario_active), snd scenario_active)))) = 1 \<and>
   sosStatus (fire_timeout (fst (deactivateSOS no_camera (tick (fst web_active), snd web_active)))) = Idle \<and>
   timeouts (fire_timeout (fst (deactivateSOS no_camera (tick (fst web_active), snd web_active)))) = [] \<and>
   alertId (fire_timeout (fst (deactivateSOS no_camera (tick (fst web_active), snd web_active))))
     = Some ''a1'' \<and>
   elapsedSeconds (fire_timeout (fst (deactivateSOS no_camera (tick (fst web_active), snd web_active))))
     = 1 \<and>
   alertId (fire_timeout (fst (recordingStopped scenario_upload (Some ''file:///clip.mp4'')
      (deactivateSOS with_camera (tick (fst scenario_active), snd scenario_active))))) = None \<and>
   elapsedSeconds (fire_timeout (fst (recordingStopped scenario_upload (Some ''file:///clip.mp4'')
      (deactivateSOS with_camera (tick (fst scenario_active), snd scenario_active))))) = 0"
  by (simp add: sos_defs effect_defs Let_def tick_def fire_timeout_def)

text \<open>
  C10. Reading a recording as Base64 text, decoding the text and copying the character
  codes of the binary string into a new \<open>Uint8Array\<close> gives the bytes of the recording:
  the same length, the same value at every index. So, when the object store accepts the
  upload, \<open>uploadEvidence\<close> of \<open>index.tsx\<close> hands it exactly the bytes of the file.
\<close>

theorem base64_repack_roundtrip:
  "b64_decode (b64_encode recording) = Inr (map unat recording) \<and>
   repack (map unat recording) = recording \<and>
   (read_reply tenv = Inr (b64_encode recording) \<and> t_upload_reply tenv = None \<longrightarrow>
      calls (snd (tabs_uploadEvidence b64_decode tenv uri i (d, w)))
        = calls w @
          [ReadAsBase64 uri, Upload (alert_fileName i (t_now tenv)) recording,
           Update i [(C_video_path, VText (alert_fileName i (t_now tenv))),
                     (C_status, VText ''resolved'')]] \<and>
      sos_evidence (snd (tabs_uploadEvidence b64_decode tenv uri i (d, w)))
        = sos_evidence w @ [(alert_fileName i (t_now tenv), recording)])"
  by (auto simp add: b64_roundtrip repack_bytes tabs_defs effect_defs Let_def
      split: option.splits)

theorem base64_repack_roundtrip_witness:
  "b64_encode [77, 97] = ''TWE='' \<and> b64_decode ''TWE='' = Inr [77, 97] \<and>
   repack [77, 97] = [77, 97] \<and>
   read_reply (scenario_tabs_upload\<lparr>read_reply := Inr ''TWE=''\<rparr>) = Inr (b64_encode [77, 97]) \<and>
   t_upload_reply (scenario_tabs_upload\<lparr>read_reply := Inr ''TWE=''\<rparr>) = None \<and>
   calls (snd (tabs_uploadEvidence b64_decode (scenario_tabs_upload\<lparr>read_reply := Inr ''TWE=''\<rparr>)
            ''file:///clip.mp4'' ''a1'' (scenario_dashboard, scenario_world)))
     = [ReadAsBase64 ''file:///clip.mp4'', Upload ''alert_a1_1700000000000.mp4'' [77, 97],
        Update ''a1'' [(C_video_path, VText ''alert_a1_1700000000000.mp4''),
                       (C_status, VText ''resolved'')]] \<and>
   sos_evidence (snd (tabs_uploadEvidence b64_decode (scenario_tabs_upload\<lparr>read_reply := Inr ''TWE=''\<rparr>)
            ''file:///clip.mp4'' ''a1'' (scenario_dashboard, scenario_world)))
     = [(''alert_a1_1700000000000.mp4'', [77, 97])]"
  using base64_repack_roundtrip
    [where recording = "[77, 97]" and tenv = "scenario_tabs_upload\<lparr>read_reply := Inr ''TWE=''\<rparr>"
       and uri = "''file:///clip.mp4''" and i = "''a1''" and d = scenario_dashboard
       and w = scenario_world]
  by (simp add: b64_encode_def b64_char_def b64_table_def alert_fileName_def show_nat_scenario)

end
